theory Spec2Isabelle
  imports Main "HOL-Library.Word" "HOL-Library.Monad_Syntax"
begin

unbundle bit_operations_syntax

section \<open>Bytes and raw memory\<close>

text \<open>
  The loader works on two byte buffers: the on-disk image (\<open>PE::_data\<close>) and the region
  obtained from \<open>VirtualAlloc\<close>. Both are lists of bytes here, and a pointer into one of
  them is the offset from its first byte. C++ gives no meaning to an access outside the
  buffer, so every read and write returns an option: \<open>None\<close> is undefined behaviour.
  All multi-byte fields are little-endian.
\<close>

type_synonym byte = "8 word"

definition peek :: "byte list \<Rightarrow> nat \<Rightarrow> nat \<Rightarrow> byte list option" where
  "peek m off n = (if off + n \<le> length m then Some (take n (drop off m)) else None)"

definition poke :: "byte list \<Rightarrow> nat \<Rightarrow> byte list \<Rightarrow> byte list option" where
  "poke m off bs =
     (if off + length bs \<le> length m
      then Some (take off m @ bs @ drop (off + length bs) m) else None)"

fun from_le :: "byte list \<Rightarrow> 'a::len word" where
  "from_le [] = 0"
| "from_le (b # bs) = ucast b OR push_bit 8 (from_le bs)"

fun to_le :: "nat \<Rightarrow> 'a::len word \<Rightarrow> byte list" where
  "to_le 0 w = []"
| "to_le (Suc n) w = ucast w # to_le n (drop_bit 8 w)"

definition load16 :: "byte list \<Rightarrow> nat \<Rightarrow> 16 word option" where
  "load16 m off = map_option from_le (peek m off 2)"

definition load32 :: "byte list \<Rightarrow> nat \<Rightarrow> 32 word option" where
  "load32 m off = map_option from_le (peek m off 4)"

definition load64 :: "byte list \<Rightarrow> nat \<Rightarrow> 64 word option" where
  "load64 m off = map_option from_le (peek m off 8)"

definition store64 :: "byte list \<Rightarrow> nat \<Rightarrow> 64 word \<Rightarrow> byte list option" where
  "store64 m off v = poke m off (to_le 8 v)"

text \<open>A NUL-terminated string starting at an offset; the terminator is not part of it.\<close>

fun cstr :: "byte list \<Rightarrow> byte list option" where
  "cstr [] = None"
| "cstr (b # bs) = (if b = 0 then Some [] else map_option ((#) b) (cstr bs))"

definition cstring :: "byte list \<Rightarrow> nat \<Rightarrow> byte list option" where
  "cstring m off = cstr (drop off m)"

section \<open>BinaryWriter (binarywriter.hpp)\<close>

text \<open>
  \<open>bw_buffer\<close> (\<open>_buffer\<close>) is the memory behind the pointer the writer was given, \<open>bw_size\<close> and \<open>bw_pos\<close>
  are \<open>std::size_t\<close>: the sum in \<open>CanWrite\<close> is taken modulo \<open>2^64\<close>.
\<close>

record BinaryWriter =
  bw_buffer :: "byte list"
  bw_size :: nat
  bw_pos :: nat

definition size_t :: "nat \<Rightarrow> nat" where
  "size_t n = n mod 2 ^ 64"

definition CanWrite :: "BinaryWriter \<Rightarrow> nat \<Rightarrow> bool" where
  "CanWrite bw n = (size_t (bw_pos bw + n) \<le> bw_size bw)"

definition ProceedBuffer :: "BinaryWriter \<Rightarrow> byte list \<Rightarrow> BinaryWriter option" where
  "ProceedBuffer bw bs = do {
     b \<leftarrow> poke (bw_buffer bw) (bw_pos bw) bs;
     Some (bw\<lparr>bw_buffer := b, bw_pos := size_t (bw_pos bw + length bs)\<rparr>)
   }"

text \<open>\<open>operator<<(std::span<T>)\<close> and \<open>Write\<close>: the overflow is dropped without a word.\<close>

definition Write :: "BinaryWriter \<Rightarrow> byte list \<Rightarrow> BinaryWriter option" where
  "Write bw bs = (if CanWrite bw (length bs) then ProceedBuffer bw bs else Some bw)"

definition Seek :: "BinaryWriter \<Rightarrow> nat \<Rightarrow> BinaryWriter" where
  "Seek bw offset = (if offset < bw_size bw then bw\<lparr>bw_pos := offset\<rparr> else bw)"

definition Skip :: "BinaryWriter \<Rightarrow> nat \<Rightarrow> BinaryWriter" where
  "Skip bw offset = (if CanWrite bw offset then bw\<lparr>bw_pos := size_t (bw_pos bw + offset)\<rparr> else bw)"

section \<open>The PE32+ layout\<close>

text \<open>
  Modelled from the spec: the structures and constants of \<open>Windows.h\<close> (winnt.h), which
  the sources include and which is not part of the repository. The spec fixes the input
  as the PE32+ format of the Microsoft PE/COFF specification; the field offsets and the
  values below are that format's, for the 64-bit build the loader is written for. Each
  accessor reads one field of the structure at the given pointer.
\<close>

definition IMAGE_DOS_SIGNATURE :: "16 word" where "IMAGE_DOS_SIGNATURE = 0x5A4D"
definition IMAGE_NT_SIGNATURE :: "32 word" where "IMAGE_NT_SIGNATURE = 0x00004550"
definition IMAGE_FILE_MACHINE_AMD64 :: "16 word" where "IMAGE_FILE_MACHINE_AMD64 = 0x8664"
definition IMAGE_DIRECTORY_ENTRY_IMPORT :: nat where "IMAGE_DIRECTORY_ENTRY_IMPORT = 1"
definition IMAGE_DIRECTORY_ENTRY_BASERELOC :: nat where "IMAGE_DIRECTORY_ENTRY_BASERELOC = 5"
definition IMAGE_DIRECTORY_ENTRY_TLS :: nat where "IMAGE_DIRECTORY_ENTRY_TLS = 9"
definition IMAGE_ORDINAL_FLAG64 :: "64 word" where "IMAGE_ORDINAL_FLAG64 = 0x8000000000000000"
definition IMAGE_REL_BASED_DIR64 :: "16 word" where "IMAGE_REL_BASED_DIR64 = 10"
definition IMAGE_SCN_MEM_EXECUTE :: "32 word" where "IMAGE_SCN_MEM_EXECUTE = 0x20000000"
definition IMAGE_SCN_MEM_WRITE :: "32 word" where "IMAGE_SCN_MEM_WRITE = 0x80000000"
definition PAGE_READONLY :: "32 word" where "PAGE_READONLY = 0x02"
definition PAGE_READWRITE :: "32 word" where "PAGE_READWRITE = 0x04"
definition PAGE_EXECUTE_READ :: "32 word" where "PAGE_EXECUTE_READ = 0x20"
definition PAGE_EXECUTE_READWRITE :: "32 word" where "PAGE_EXECUTE_READWRITE = 0x40"
definition MEM_FREE :: "32 word" where "MEM_FREE = 0x10000"
definition DLL_PROCESS_ATTACH :: "32 word" where "DLL_PROCESS_ATTACH = 1"

text \<open>\<open>IMAGE_DOS_HEADER\<close>, 64 bytes.\<close>

definition sizeof_IMAGE_DOS_HEADER :: nat where "sizeof_IMAGE_DOS_HEADER = 64"
definition e_magic :: "byte list \<Rightarrow> nat \<Rightarrow> 16 word option" where
  "e_magic m dos = load16 m dos"
definition e_lfanew :: "byte list \<Rightarrow> nat \<Rightarrow> 32 word option" where
  "e_lfanew m dos = load32 m (dos + 60)"

text \<open>
  \<open>IMAGE_NT_HEADERS64\<close>, 264 bytes: the signature, the 20-byte file header and the
  240-byte optional header, whose last 128 bytes are the 16 data directories.
\<close>

definition sizeof_IMAGE_NT_HEADERS :: nat where "sizeof_IMAGE_NT_HEADERS = 264"
definition Signature :: "byte list \<Rightarrow> nat \<Rightarrow> 32 word option" where
  "Signature m nt = load32 m nt"
definition Machine :: "byte list \<Rightarrow> nat \<Rightarrow> 16 word option" where
  "Machine m nt = load16 m (nt + 4)"
definition NumberOfSections :: "byte list \<Rightarrow> nat \<Rightarrow> 16 word option" where
  "NumberOfSections m nt = load16 m (nt + 6)"
definition SizeOfOptionalHeader :: "byte list \<Rightarrow> nat \<Rightarrow> 16 word option" where
  "SizeOfOptionalHeader m nt = load16 m (nt + 20)"
definition ImageBase :: "byte list \<Rightarrow> nat \<Rightarrow> 64 word option" where
  "ImageBase m nt = load64 m (nt + 48)"
definition SizeOfImage :: "byte list \<Rightarrow> nat \<Rightarrow> 32 word option" where
  "SizeOfImage m nt = load32 m (nt + 80)"
definition dir_VirtualAddress :: "byte list \<Rightarrow> nat \<Rightarrow> nat \<Rightarrow> 32 word option" where
  "dir_VirtualAddress m nt i = load32 m (nt + 136 + 8 * i)"
definition dir_Size :: "byte list \<Rightarrow> nat \<Rightarrow> nat \<Rightarrow> 32 word option" where
  "dir_Size m nt i = load32 m (nt + 136 + 8 * i + 4)"

text \<open>
  \<open>IMAGE_FIRST_SECTION(nt)\<close>: the address of the optional header (offset 24) plus
  \<open>FileHeader.SizeOfOptionalHeader\<close>.
\<close>

definition IMAGE_FIRST_SECTION :: "byte list \<Rightarrow> nat \<Rightarrow> nat option" where
  "IMAGE_FIRST_SECTION m nt = do {
     n \<leftarrow> SizeOfOptionalHeader m nt;
     Some (nt + 24 + unat n)
   }"

text \<open>\<open>IMAGE_SECTION_HEADER\<close>, 40 bytes.\<close>

definition sizeof_IMAGE_SECTION_HEADER :: nat where "sizeof_IMAGE_SECTION_HEADER = 40"
definition sec_VirtualSize :: "byte list \<Rightarrow> nat \<Rightarrow> 32 word option" where
  "sec_VirtualSize m s = load32 m (s + 8)"
definition sec_VirtualAddress :: "byte list \<Rightarrow> nat \<Rightarrow> 32 word option" where
  "sec_VirtualAddress m s = load32 m (s + 12)"
definition sec_SizeOfRawData :: "byte list \<Rightarrow> nat \<Rightarrow> 32 word option" where
  "sec_SizeOfRawData m s = load32 m (s + 16)"
definition sec_PointerToRawData :: "byte list \<Rightarrow> nat \<Rightarrow> 32 word option" where
  "sec_PointerToRawData m s = load32 m (s + 20)"
definition sec_Characteristics :: "byte list \<Rightarrow> nat \<Rightarrow> 32 word option" where
  "sec_Characteristics m s = load32 m (s + 36)"

text \<open>
  \<open>IMAGE_IMPORT_DESCRIPTOR\<close>, 20 bytes. \<open>Characteristics\<close> and \<open>OriginalFirstThunk\<close>
  are the two members of the union that is the first field: both read the same four bytes.
\<close>

definition sizeof_IMAGE_IMPORT_DESCRIPTOR :: nat where "sizeof_IMAGE_IMPORT_DESCRIPTOR = 20"
definition imp_Characteristics :: "byte list \<Rightarrow> nat \<Rightarrow> 32 word option" where
  "imp_Characteristics m d = load32 m d"
definition imp_OriginalFirstThunk :: "byte list \<Rightarrow> nat \<Rightarrow> 32 word option" where
  "imp_OriginalFirstThunk m d = load32 m d"
definition imp_Name :: "byte list \<Rightarrow> nat \<Rightarrow> 32 word option" where
  "imp_Name m d = load32 m (d + 12)"
definition imp_FirstThunk :: "byte list \<Rightarrow> nat \<Rightarrow> 32 word option" where
  "imp_FirstThunk m d = load32 m (d + 16)"

text \<open>
  A 64-bit thunk: the top bit marks an import by ordinal (\<open>IMAGE_SNAP_BY_ORDINAL\<close>), the
  low 16 bits are the ordinal (\<open>IMAGE_ORDINAL\<close>); otherwise it is the RVA of an
  \<open>IMAGE_IMPORT_BY_NAME\<close>, a 2-byte hint followed by the name.
\<close>

definition IMAGE_SNAP_BY_ORDINAL :: "64 word \<Rightarrow> bool" where
  "IMAGE_SNAP_BY_ORDINAL t = (t AND IMAGE_ORDINAL_FLAG64 \<noteq> 0)"
definition IMAGE_ORDINAL :: "64 word \<Rightarrow> 64 word" where
  "IMAGE_ORDINAL t = t AND 0xffff"

text \<open>\<open>IMAGE_BASE_RELOCATION\<close>, 8 bytes, followed by the block's 16-bit entries.\<close>

definition sizeof_IMAGE_BASE_RELOCATION :: nat where "sizeof_IMAGE_BASE_RELOCATION = 8"
definition blk_VirtualAddress :: "byte list \<Rightarrow> nat \<Rightarrow> 32 word option" where
  "blk_VirtualAddress m b = load32 m b"
definition blk_SizeOfBlock :: "byte list \<Rightarrow> nat \<Rightarrow> 32 word option" where
  "blk_SizeOfBlock m b = load32 m (b + 4)"

text \<open>\<open>IMAGE_TLS_DIRECTORY64\<close>.\<close>

definition tls_AddressOfCallBacks :: "byte list \<Rightarrow> nat \<Rightarrow> 64 word option" where
  "tls_AddressOfCallBacks m t = load64 m (t + 24)"

lemmas layout =
  IMAGE_DOS_SIGNATURE_def IMAGE_NT_SIGNATURE_def IMAGE_FILE_MACHINE_AMD64_def
  IMAGE_DIRECTORY_ENTRY_IMPORT_def IMAGE_DIRECTORY_ENTRY_BASERELOC_def
  IMAGE_DIRECTORY_ENTRY_TLS_def IMAGE_ORDINAL_FLAG64_def IMAGE_REL_BASED_DIR64_def
  IMAGE_SCN_MEM_EXECUTE_def IMAGE_SCN_MEM_WRITE_def PAGE_READONLY_def PAGE_READWRITE_def
  PAGE_EXECUTE_READ_def PAGE_EXECUTE_READWRITE_def MEM_FREE_def DLL_PROCESS_ATTACH_def
  sizeof_IMAGE_DOS_HEADER_def sizeof_IMAGE_NT_HEADERS_def sizeof_IMAGE_SECTION_HEADER_def
  sizeof_IMAGE_IMPORT_DESCRIPTOR_def sizeof_IMAGE_BASE_RELOCATION_def
  e_magic_def e_lfanew_def Signature_def Machine_def NumberOfSections_def
  SizeOfOptionalHeader_def ImageBase_def SizeOfImage_def dir_VirtualAddress_def dir_Size_def
  IMAGE_FIRST_SECTION_def sec_VirtualSize_def sec_VirtualAddress_def sec_SizeOfRawData_def
  sec_PointerToRawData_def sec_Characteristics_def imp_Characteristics_def
  imp_OriginalFirstThunk_def imp_Name_def imp_FirstThunk_def IMAGE_SNAP_BY_ORDINAL_def
  IMAGE_ORDINAL_def blk_VirtualAddress_def blk_SizeOfBlock_def tls_AddressOfCallBacks_def

section \<open>PE, the parser of the on-disk image (pe.hpp)\<close>

datatype PEError = Success | InvalidPeFormat | NotSupportedMachine

text \<open>
  The pointers \<open>_dosHeader\<close>, \<open>_ntHeader\<close> and the section-header pointers are offsets
  into \<open>pe_data\<close>; \<open>None\<close> is the null pointer a member starts as.
\<close>

record PE =
  pe_dosHeader :: "nat option"
  pe_ntHeader :: "nat option"
  pe_sectionHeaders :: "nat list"
  pe_data :: "byte list"
  pe_error :: PEError
  pe_ok :: bool

definition PE_init :: PE where
  "PE_init = \<lparr>pe_dosHeader = None, pe_ntHeader = None, pe_sectionHeaders = [],
     pe_data = [], pe_error = Success, pe_ok = False\<rparr>"

text \<open>
  \<open>PE::Parse\<close> on the bytes the \<open>StreamReader\<close> returned. The two operands of \<open>||\<close> are
  read in order. \<open>e_lfanew\<close> is a signed 32-bit \<open>LONG\<close>: the comparison with
  \<open>sizeof(IMAGE_DOS_HEADER)\<close> converts it to \<open>size_t\<close>, so a negative value passes, and
  the pointer \<open>_data.data() + e_lfanew\<close> then lies before the buffer. The loop pushes
  \<open>NumberOfSections\<close> pointers, 40 bytes apart, without reading what they point to.
\<close>

definition PE_Parse :: "byte list \<Rightarrow> PE option" where
  "PE_Parse f = do {
     let pe = PE_init\<lparr>pe_data := f, pe_dosHeader := Some 0\<rparr>;
     magic \<leftarrow> e_magic f 0;
     if magic \<noteq> IMAGE_DOS_SIGNATURE then Some (pe\<lparr>pe_error := InvalidPeFormat\<rparr>)
     else do {
       lfanew \<leftarrow> e_lfanew f 0;
       if (scast lfanew :: 64 word) < of_nat sizeof_IMAGE_DOS_HEADER
       then Some (pe\<lparr>pe_error := InvalidPeFormat\<rparr>)
       else if sint lfanew < 0 then None
       else do {
         let nt = nat (sint lfanew);
         let pe = pe\<lparr>pe_ntHeader := Some nt\<rparr>;
         sig \<leftarrow> Signature f nt;
         if sig \<noteq> IMAGE_NT_SIGNATURE then Some (pe\<lparr>pe_error := InvalidPeFormat\<rparr>)
         else do {
           machine \<leftarrow> Machine f nt;
           if machine \<noteq> IMAGE_FILE_MACHINE_AMD64
           then Some (pe\<lparr>pe_error := NotSupportedMachine\<rparr>)
           else do {
             n \<leftarrow> NumberOfSections f nt;
             pSectionHeader \<leftarrow> IMAGE_FIRST_SECTION f nt;
             Some (pe\<lparr>pe_sectionHeaders :=
                          map (\<lambda>i. pSectionHeader + sizeof_IMAGE_SECTION_HEADER * i) [0..<unat n],
                        pe_ok := True\<rparr>)
           }
         }
       }
     }
   }"


definition PE_ImageSize :: "PE \<Rightarrow> 32 word option" where
  "PE_ImageSize pe = do { nt \<leftarrow> pe_ntHeader pe; SizeOfImage (pe_data pe) nt }"

text \<open>\<open>detail::rvaInSection\<close>: the upper bound is a sum of two \<open>DWORD\<close>s and wraps.\<close>

definition inBetween :: "32 word \<Rightarrow> 32 word \<Rightarrow> 32 word \<Rightarrow> bool" where
  "inBetween x lb ub = (lb \<le> x \<and> x < ub)"

definition rvaInSection :: "byte list \<Rightarrow> 32 word \<Rightarrow> nat \<Rightarrow> bool option" where
  "rvaInSection m rva header = do {
     va \<leftarrow> sec_VirtualAddress m header;
     vs \<leftarrow> sec_VirtualSize m header;
     Some (inBetween rva va (va + vs))
   }"

text \<open>\<open>std::ranges::find_if\<close> over the section headers; \<open>Some None\<close> is \<open>end()\<close>.\<close>

fun find_section :: "byte list \<Rightarrow> 32 word \<Rightarrow> nat list \<Rightarrow> nat option option" where
  "find_section m rva [] = Some None"
| "find_section m rva (s # ss) = do {
     b \<leftarrow> rvaInSection m rva s;
     if b then Some (Some s) else find_section m rva ss
   }"

definition Rva2Raw :: "PE \<Rightarrow> 32 word \<Rightarrow> 32 word option" where
  "Rva2Raw pe rva = do {
     section \<leftarrow> find_section (pe_data pe) rva (pe_sectionHeaders pe);
     case section of
       None \<Rightarrow> Some 0
     | Some sectionHeader \<Rightarrow> do {
         va \<leftarrow> sec_VirtualAddress (pe_data pe) sectionHeader;
         p \<leftarrow> sec_PointerToRawData (pe_data pe) sectionHeader;
         Some (rva - va + p)
       }
   }"

text \<open>
  \<open>PE::ImportDirectory\<close>: \<open>Some None\<close> is \<open>nullptr\<close>, \<open>Some (Some p)\<close> the pointer
  \<open>_data.data() + p\<close>.
\<close>

definition PE_ImportDirectory :: "PE \<Rightarrow> nat option option" where
  "PE_ImportDirectory pe = do {
     nt \<leftarrow> pe_ntHeader pe;
     va \<leftarrow> dir_VirtualAddress (pe_data pe) nt IMAGE_DIRECTORY_ENTRY_IMPORT;
     sz \<leftarrow> dir_Size (pe_data pe) nt IMAGE_DIRECTORY_ENTRY_IMPORT;
     if sz = 0 then Some None
     else do {
       importDirectoryRaw \<leftarrow> Rva2Raw pe va;
       Some (Some (unat importDirectoryRaw))
     }
   }"

section \<open>The host and the process state\<close>

text \<open>
  The Windows calls the loader makes are a parameter: each entry gives the result of a
  call from its arguments, 0 being the null pointer or handle. \<open>VirtualAlloc\<close> is always
  called with a null address, \<open>MEM_COMMIT | MEM_TOP_DOWN\<close> and \<open>PAGE_READWRITE\<close>, so the
  size is its only argument here; committed pages are zero-filled.
\<close>

datatype proc = ByOrdinal "16 word" | ByName "byte list"

record host =
  VirtualAlloc :: "nat \<Rightarrow> 64 word"
  LoadLibraryA :: "byte list \<Rightarrow> 64 word"
  GetProcAddress :: "64 word \<Rightarrow> proc \<Rightarrow> 64 word"
  VirtualProtect :: "64 word \<Rightarrow> nat \<Rightarrow> 32 word \<Rightarrow> bool"

text \<open>
  Every call is recorded, with its result, in the order it is made. A TLS callback is
  code of the image: the model records that it is called (its address, the image base
  and the reason) and nothing of what it does.
\<close>

datatype event =
    Alloc nat "64 word"
  | LoadLib "byte list" "64 word"
  | GetProc "64 word" proc "64 word"
  | Protect "64 word" nat "32 word" bool
  | FreeLib "64 word"
  | Free "64 word" nat "32 word"
  | TlsCall "64 word" "64 word" "32 word"

text \<open>
  \<open>region\<close> is the content of the allocated region, \<open>trace\<close> the calls so far. The
  content is kept after \<open>VirtualFree\<close>, so that what was mapped can still be stated.
\<close>

record world =
  region :: "byte list"
  trace :: "event list"

definition emit :: "event \<Rightarrow> world \<Rightarrow> world" where
  "emit e w = w\<lparr>trace := trace w @ [e]\<rparr>"

text \<open>The \<open>VirtualProtect\<close> calls of a trace, in order.\<close>

definition protect_events :: "event list \<Rightarrow> event list" where
  "protect_events tr = filter (\<lambda>e. case e of Protect a n p b \<Rightarrow> True | _ \<Rightarrow> False) tr"

section \<open>Module, the mapped image (loader.hpp)\<close>

text \<open>
  \<open>mod_base\<close> is the address \<open>VirtualAlloc\<close> returned; the header pointers are offsets
  into the region.
\<close>

record Module =
  mod_base :: "64 word"
  mod_imageSize :: nat
  mod_dosHeader :: "nat option"
  mod_ntHeader :: "nat option"
  mod_sectionHeaders :: "nat list"
  mod_importModules :: "64 word list"
  mod_error :: PEError
  mod_ok :: bool

text \<open>
  The constructor and \<open>Module::Parse\<close>: the same checks as \<open>PE::Parse\<close>, on the region,
  and then the store of the base address into \<open>OptionalHeader.ImageBase\<close>.
\<close>

definition Module_ctor :: "64 word \<Rightarrow> nat \<Rightarrow> byte list \<Rightarrow> (Module \<times> byte list) option" where
  "Module_ctor base imageSize r = do {
     let m = \<lparr>mod_base = base, mod_imageSize = imageSize, mod_dosHeader = Some 0,
                mod_ntHeader = None, mod_sectionHeaders = [], mod_importModules = [],
                mod_error = Success, mod_ok = False\<rparr>;
     magic \<leftarrow> e_magic r 0;
     if magic \<noteq> IMAGE_DOS_SIGNATURE then Some (m\<lparr>mod_error := InvalidPeFormat\<rparr>, r)
     else do {
       lfanew \<leftarrow> e_lfanew r 0;
       if (scast lfanew :: 64 word) < of_nat sizeof_IMAGE_DOS_HEADER
       then Some (m\<lparr>mod_error := InvalidPeFormat\<rparr>, r)
       else if sint lfanew < 0 then None
       else do {
         let nt = nat (sint lfanew);
         let m = m\<lparr>mod_ntHeader := Some nt\<rparr>;
         sig \<leftarrow> Signature r nt;
         if sig \<noteq> IMAGE_NT_SIGNATURE then Some (m\<lparr>mod_error := InvalidPeFormat\<rparr>, r)
         else do {
           machine \<leftarrow> Machine r nt;
           if machine \<noteq> IMAGE_FILE_MACHINE_AMD64
           then Some (m\<lparr>mod_error := NotSupportedMachine\<rparr>, r)
           else do {
             n \<leftarrow> NumberOfSections r nt;
             pSectionHeader \<leftarrow> IMAGE_FIRST_SECTION r nt;
             r' \<leftarrow> store64 r (nt + 48) base;
             Some (m\<lparr>mod_sectionHeaders :=
                           map (\<lambda>i. pSectionHeader + sizeof_IMAGE_SECTION_HEADER * i) [0..<unat n],
                         mod_ok := True\<rparr>, r')
           }
         }
       }
     }
   }"

text \<open>
  The destructor: \<open>FreeLibrary\<close> on every recorded module, then \<open>VirtualFree\<close> of the
  region when the base is not null.
\<close>

definition Module_dtor :: "Module \<Rightarrow> world \<Rightarrow> world" where
  "Module_dtor m w =
     w\<lparr>trace := trace w @ map FreeLib (mod_importModules m) @
        (if mod_base m \<noteq> 0 then [Free (mod_base m) (mod_imageSize m) MEM_FREE] else [])\<rparr>"

definition AddImportModule :: "Module \<Rightarrow> 64 word \<Rightarrow> Module" where
  "AddImportModule m module = m\<lparr>mod_importModules := mod_importModules m @ [module]\<rparr>"

text \<open>
  \<open>FetchDataDirectory\<close>: \<open>Some None\<close> is \<open>nullptr\<close>, \<open>Some (Some p)\<close> the pointer
  \<open>_base + p\<close>.
\<close>

definition FetchDataDirectory :: "byte list \<Rightarrow> Module \<Rightarrow> nat \<Rightarrow> nat option option" where
  "FetchDataDirectory r m index = do {
     nt \<leftarrow> mod_ntHeader m;
     va \<leftarrow> dir_VirtualAddress r nt index;
     sz \<leftarrow> dir_Size r nt index;
     Some (if sz = 0 then None else Some (unat va))
   }"

definition Module_ImportDirectory :: "byte list \<Rightarrow> Module \<Rightarrow> nat option option" where
  "Module_ImportDirectory r m = FetchDataDirectory r m IMAGE_DIRECTORY_ENTRY_IMPORT"

definition RelocationDirectory :: "byte list \<Rightarrow> Module \<Rightarrow> nat option option" where
  "RelocationDirectory r m = FetchDataDirectory r m IMAGE_DIRECTORY_ENTRY_BASERELOC"

definition TLSDirectory :: "byte list \<Rightarrow> Module \<Rightarrow> nat option option" where
  "TLSDirectory r m = FetchDataDirectory r m IMAGE_DIRECTORY_ENTRY_TLS"

section \<open>ModuleLoader (loader.hpp)\<close>

subsection \<open>Copying the image\<close>

text \<open>
  \<open>bw << sectionHeader\<close> with a pointer to a section header: \<open>operator<<(const T&)\<close>
  forwards to the pointee, whose 40 bytes are copied when they fit.
\<close>

definition WriteSectionHeader :: "byte list \<Rightarrow> BinaryWriter \<Rightarrow> nat \<Rightarrow> BinaryWriter option" where
  "WriteSectionHeader rawData bw sectionHeader =
     (if CanWrite bw sizeof_IMAGE_SECTION_HEADER
      then do {
        h \<leftarrow> peek rawData sectionHeader sizeof_IMAGE_SECTION_HEADER;
        ProceedBuffer bw h
      }
      else Some bw)"

fun WriteSectionHeaders :: "byte list \<Rightarrow> BinaryWriter \<Rightarrow> nat list \<Rightarrow> BinaryWriter option" where
  "WriteSectionHeaders rawData bw [] = Some bw"
| "WriteSectionHeaders rawData bw (sectionHeader # rest) = do {
     bw' \<leftarrow> WriteSectionHeader rawData bw sectionHeader;
     WriteSectionHeaders rawData bw' rest
   }"

text \<open>
  Lines 146 to 151 of \<open>Load\<close>: \<open>size\<close> is the distance from the first byte of the file to
  the first section header, and the span of that many bytes from the start of the file is
  written in one block. \<open>sectionHeaders[0]\<close> of an empty vector is undefined.
\<close>

definition header_bytes :: "PE \<Rightarrow> nat option" where
  "header_bytes pe = (case pe_sectionHeaders pe of [] \<Rightarrow> None | first # _ \<Rightarrow> Some first)"

definition WriteHeaderBlock :: "PE \<Rightarrow> BinaryWriter \<Rightarrow> BinaryWriter option" where
  "WriteHeaderBlock pe bw = do {
     size \<leftarrow> header_bytes pe;
     block \<leftarrow> peek (pe_data pe) 0 size;
     Write bw block
   }"

text \<open>Lines 146 to 156: the block write, then the loop over the section headers.\<close>

definition CopyHeaders :: "PE \<Rightarrow> BinaryWriter \<Rightarrow> BinaryWriter option" where
  "CopyHeaders pe bw = do {
     bw' \<leftarrow> WriteHeaderBlock pe bw;
     WriteSectionHeaders (pe_data pe) bw' (pe_sectionHeaders pe)
   }"

text \<open>
  \<open>LoadSection\<close> and the loop of lines 162 to 166. \<open>subspan\<close> requires the raw range to
  lie within the file.
\<close>

definition LoadSection :: "BinaryWriter \<Rightarrow> byte list \<Rightarrow> byte list \<Rightarrow> nat \<Rightarrow> BinaryWriter option" where
  "LoadSection bw data rawData sectionHeader = do {
     va \<leftarrow> sec_VirtualAddress rawData sectionHeader;
     Write (Seek bw (unat va)) data
   }"

fun LoadSections :: "byte list \<Rightarrow> BinaryWriter \<Rightarrow> nat list \<Rightarrow> BinaryWriter option" where
  "LoadSections rawData bw [] = Some bw"
| "LoadSections rawData bw (sectionHeader # rest) = do {
     p \<leftarrow> sec_PointerToRawData rawData sectionHeader;
     n \<leftarrow> sec_SizeOfRawData rawData sectionHeader;
     data \<leftarrow> peek rawData (unat p) (unat n);
     bw' \<leftarrow> LoadSection bw data rawData sectionHeader;
     LoadSections rawData bw' rest
   }"

text \<open>Lines 145 to 166: the content of the region when the \<open>Module\<close> is constructed.\<close>

definition CopyImage :: "PE \<Rightarrow> nat \<Rightarrow> byte list option" where
  "CopyImage pe imageSize = do {
     let bw = \<lparr>bw_buffer = replicate imageSize 0, bw_size = imageSize, bw_pos = 0\<rparr>;
     bw \<leftarrow> CopyHeaders pe bw;
     first \<leftarrow> header_bytes pe;
     va \<leftarrow> sec_VirtualAddress (pe_data pe) first;
     bw \<leftarrow> LoadSections (pe_data pe) (Seek bw (unat va)) (pe_sectionHeaders pe);
     Some (bw_buffer bw)
   }"

subsection \<open>BuildIAT\<close>

lemma poke_length: "poke m off bs = Some m' \<Longrightarrow> length m' = length m"
  by (auto simp: poke_def split: if_splits)

lemma store64_length: "store64 m off v = Some m' \<Longrightarrow> length m' = length m"
  by (simp add: store64_def poke_length)

lemma load64_bound: "load64 m off = Some v \<Longrightarrow> off + 8 \<le> length m"
  by (auto simp: load64_def peek_def split: if_splits)

lemma load32_bound: "load32 m off = Some v \<Longrightarrow> off + 4 \<le> length m"
  by (auto simp: load32_def peek_def split: if_splits)

lemma load16_bound: "load16 m off = Some v \<Longrightarrow> off + 2 \<le> length m"
  by (auto simp: load16_def peek_def split: if_splits)

text \<open>
  The loop over the thunks of one descriptor (lines 226 to 247). \<open>OFT\<close> and \<open>IAT\<close> are
  pointers into the region; \<open>False\<close> is the early \<open>return false\<close>.
\<close>

function thunk_loop :: "host \<Rightarrow> 64 word \<Rightarrow> nat \<Rightarrow> nat \<Rightarrow> world \<Rightarrow> (bool \<times> world) option" where
  "thunk_loop h module OFT IAT w = do {
     t \<leftarrow> load64 (region w) OFT;
     if t = 0 then Some (True, w)
     else do {
       p \<leftarrow> (if IMAGE_SNAP_BY_ORDINAL t then Some (ByOrdinal (ucast (IMAGE_ORDINAL t)))
            else map_option ByName (cstring (region w) (unat t + 2)));
       let function = GetProcAddress h module p;
       let w = emit (GetProc module p function) w;
       if function = 0 then Some (False, w)
       else do {
         r \<leftarrow> store64 (region w) IAT function;
         thunk_loop h module (OFT + 8) (IAT + 8) (w\<lparr>region := r\<rparr>)
       }
     }
   }"
  by pat_completeness auto
termination
  by (relation "measure (\<lambda>(h, module, OFT, IAT, w). length (region w) - OFT)")
     (auto simp: emit_def dest!: load64_bound store64_length)

declare thunk_loop.simps [simp del]

lemma thunk_loop_length:
  "thunk_loop h module OFT IAT w = Some (ok, w') \<Longrightarrow> length (region w') = length (region w)"
proof (induction h module OFT IAT w rule: thunk_loop.induct)
  case (1 h module OFT IAT w)
  from "1.prems" obtain t where t: "load64 (region w) OFT = Some t"
    by (subst (asm) thunk_loop.simps) (auto simp: bind_eq_Some_conv)
  show ?case
  proof (cases "t = 0")
    case True
    with "1.prems" t show ?thesis
      by (subst (asm) thunk_loop.simps) simp
  next
    case False
    with "1.prems" t obtain p where
      p: "(if IMAGE_SNAP_BY_ORDINAL t then Some (ByOrdinal (ucast (IMAGE_ORDINAL t)))
            else map_option ByName (cstring (region w) (unat t + 2))) = Some p"
      by (subst (asm) thunk_loop.simps) (auto simp: bind_eq_Some_conv simp del: map_option_eq_Some)
    define f where "f = GetProcAddress h module p"
    define w1 where "w1 = emit (GetProc module p f) w"
    have rw1: "region w1 = region w" by (simp add: w1_def emit_def)
    show ?thesis
    proof (cases "f = 0")
      case True
      with "1.prems" t False p rw1 show ?thesis
        by (subst (asm) thunk_loop.simps) (simp add: f_def w1_def Let_def)
    next
      case f0: False
      with "1.prems" t False p obtain r where
        r: "store64 (region w1) IAT f = Some r" and
        rec: "thunk_loop h module (OFT + 8) (IAT + 8) (w1\<lparr>region := r\<rparr>) = Some (ok, w')"
        by (subst (asm) thunk_loop.simps) (auto simp: f_def w1_def Let_def bind_eq_Some_conv)
      from "1.IH"[OF t False p f_def w1_def f0 r rec] store64_length[OF r] rw1
      show ?thesis by simp
    qed
  qed
qed

text \<open>
  The loop over the import descriptors (lines 208 to 251). The module handle is added to
  the \<open>Module\<close> after the thunk loop of its descriptor.
\<close>

function import_loop :: "host \<Rightarrow> nat \<Rightarrow> Module \<Rightarrow> world \<Rightarrow> (bool \<times> Module \<times> world) option" where
  "import_loop h importDirectory m w = do {
     c \<leftarrow> imp_Characteristics (region w) importDirectory;
     if c = 0 then Some (True, m, w)
     else do {
       name \<leftarrow> imp_Name (region w) importDirectory;
       dll \<leftarrow> cstring (region w) (unat name);
       let module = LoadLibraryA h dll;
       let w = emit (LoadLib dll module) w;
       if module = 0 then Some (False, m, w)
       else do {
         oft \<leftarrow> imp_OriginalFirstThunk (region w) importDirectory;
         ft \<leftarrow> imp_FirstThunk (region w) importDirectory;
         let OFT = (if oft = 0 then unat ft else unat oft);
         (ok, w') \<leftarrow> thunk_loop h module OFT (unat ft) w;
         if \<not> ok then Some (False, m, w')
         else import_loop h (importDirectory + sizeof_IMAGE_IMPORT_DESCRIPTOR)
                (AddImportModule m module) w'
       }
     }
   }"
  by pat_completeness auto
termination
  by (relation "measure (\<lambda>(h, importDirectory, m, w). length (region w) - importDirectory)")
     (auto simp: emit_def imp_Characteristics_def sizeof_IMAGE_IMPORT_DESCRIPTOR_def
           dest!: load32_bound thunk_loop_length)

declare import_loop.simps [simp del]

definition BuildIAT :: "host \<Rightarrow> Module \<Rightarrow> world \<Rightarrow> (bool \<times> Module \<times> world) option" where
  "BuildIAT h m w = do {
     importDirectory \<leftarrow> Module_ImportDirectory (region w) m;
     case importDirectory of
       None \<Rightarrow> Some (True, m, w)
     | Some d \<Rightarrow> import_loop h d m w
   }"

subsection \<open>RelocateBase\<close>

text \<open>
  The loop over the entries of one block (lines 267 to 279). \<open>relocTable\<close> and \<open>reloc\<close>
  are pointers into the region. The index \<open>relocTable->VirtualAddress + (*reloc & 0xfff)\<close>
  is a \<open>DWORD\<close> sum; \<open>&base[...]\<close> is evaluated for every entry and requires the index to
  be within the span. The loop ends at the first entry that is 0. \<open>add64\<close> is
  \<open>*reinterpret_cast<std::uint64_t*>(dest) += delta\<close>.
\<close>

definition add64 :: "byte list \<Rightarrow> nat \<Rightarrow> 64 word \<Rightarrow> byte list option" where
  "add64 r dest delta = do { v \<leftarrow> load64 r dest; store64 r dest (v + delta) }"

lemma add64_length: "add64 r dest delta = Some r' \<Longrightarrow> length r' = length r"
  by (auto simp: add64_def bind_eq_Some_conv dest: store64_length)

function reloc_loop :: "64 word \<Rightarrow> nat \<Rightarrow> nat \<Rightarrow> byte list \<Rightarrow> byte list option" where
  "reloc_loop delta relocTable reloc r = do {
     e \<leftarrow> load16 r reloc;
     if e = 0 then Some r
     else do {
       va \<leftarrow> blk_VirtualAddress r relocTable;
       let dest = unat (va + ucast (e AND 0xfff));
       if length r \<le> dest then None
       else do {
         r' \<leftarrow> (if drop_bit 12 e = IMAGE_REL_BASED_DIR64
               then add64 r dest delta else Some r);
         reloc_loop delta relocTable (reloc + 2) r'
       }
     }
   }"
  by pat_completeness auto
termination
  by (relation "measure (\<lambda>(delta, relocTable, reloc, r). length r - reloc)")
     (auto dest!: load16_bound add64_length split: if_splits)

declare reloc_loop.simps [simp del]

text \<open>
  The loop over the blocks (lines 265 to 283). It ends at a block whose \<open>VirtualAddress\<close>
  is 0 and advances by \<open>SizeOfBlock\<close>, which may be 0: the first argument bounds the number
  of blocks visited, and \<open>None\<close> is also the loop that has not ended within the bound.
\<close>

fun reloc_blocks :: "nat \<Rightarrow> 64 word \<Rightarrow> nat \<Rightarrow> byte list \<Rightarrow> byte list option" where
  "reloc_blocks 0 delta relocTable r = None"
| "reloc_blocks (Suc fuel) delta relocTable r = do {
     va \<leftarrow> blk_VirtualAddress r relocTable;
     if va = 0 then Some r
     else do {
       r' \<leftarrow> reloc_loop delta relocTable (relocTable + sizeof_IMAGE_BASE_RELOCATION) r;
       n \<leftarrow> blk_SizeOfBlock r' relocTable;
       reloc_blocks fuel delta (relocTable + unat n) r'
     }
   }"

definition RelocateBase :: "nat \<Rightarrow> Module \<Rightarrow> 64 word \<Rightarrow> byte list \<Rightarrow> byte list option" where
  "RelocateBase fuel m delta r = do {
     relocTable \<leftarrow> RelocationDirectory r m;
     case relocTable of
       None \<Rightarrow> Some r
     | Some t \<Rightarrow> reloc_blocks fuel delta t r
   }"

subsection \<open>FinalizeSection\<close>

text \<open>The protection chosen from the two characteristic bits (lines 293 to 305).\<close>

definition isBitSet :: "32 word \<Rightarrow> 32 word \<Rightarrow> bool" where
  "isBitSet flags flag = (flags AND flag = flag)"

definition newProtect :: "32 word \<Rightarrow> 32 word" where
  "newProtect characteristics =
     (let isWritable = isBitSet characteristics IMAGE_SCN_MEM_WRITE;
          isExecutable = isBitSet characteristics IMAGE_SCN_MEM_EXECUTE
      in if isWritable
         then (if isExecutable then PAGE_EXECUTE_READWRITE else PAGE_READWRITE)
         else (if isExecutable then PAGE_EXECUTE_READ else PAGE_READONLY))"

text \<open>The loop over the section headers of the mapped image (lines 291 to 315).\<close>

fun protect_loop :: "host \<Rightarrow> 64 word \<Rightarrow> nat list \<Rightarrow> world \<Rightarrow> (bool \<times> world) option" where
  "protect_loop h imageBase [] w = Some (True, w)"
| "protect_loop h imageBase (sectionHeader # rest) w = do {
     c \<leftarrow> sec_Characteristics (region w) sectionHeader;
     va \<leftarrow> sec_VirtualAddress (region w) sectionHeader;
     vs \<leftarrow> sec_VirtualSize (region w) sectionHeader;
     let result = VirtualProtect h (imageBase + ucast va) (unat vs) (newProtect c);
     let w = emit (Protect (imageBase + ucast va) (unat vs) (newProtect c) result) w;
     if \<not> result then Some (False, w)
     else protect_loop h imageBase rest w
   }"

definition FinalizeSection :: "host \<Rightarrow> Module \<Rightarrow> world \<Rightarrow> (bool \<times> world) option" where
  "FinalizeSection h m w = protect_loop h (mod_base m) (mod_sectionHeaders m) w"

text \<open>
  Modelled from the spec: the truth table of Phase 7 over the two answers ``writable''
  and ``executable'', and the call the spec asks for one section of the mapped image,
  \<open>VirtualProtect(base + VirtualAddress, Misc.VirtualSize, protection)\<close>, as a successful
  call. These two follow the words of the specification and are compared with
  \<open>newProtect\<close> and \<open>FinalizeSection\<close> above.
\<close>

definition protection_table :: "bool \<Rightarrow> bool \<Rightarrow> 32 word" where
  "protection_table writable executable =
     (if writable then (if executable then PAGE_EXECUTE_READWRITE else PAGE_READWRITE)
      else (if executable then PAGE_EXECUTE_READ else PAGE_READONLY))"

definition section_protection :: "64 word \<Rightarrow> byte list \<Rightarrow> nat \<Rightarrow> event option" where
  "section_protection base r sectionHeader = do {
     c \<leftarrow> sec_Characteristics r sectionHeader;
     va \<leftarrow> sec_VirtualAddress r sectionHeader;
     vs \<leftarrow> sec_VirtualSize r sectionHeader;
     Some (Protect (base + ucast va) (unat vs) (protection_table (bit c 31) (bit c 29)) True)
   }"

subsection \<open>RunTLSCallbacks\<close>

text \<open>
  \<open>AddressOfCallBacks\<close> is an address, not an RVA. Only the region is known here, so a
  callback array outside it is outside the model (\<open>None\<close>).
\<close>

function tls_loop :: "64 word \<Rightarrow> nat \<Rightarrow> world \<Rightarrow> world option" where
  "tls_loop imageBase tlsCallbacks w = do {
     cb \<leftarrow> load64 (region w) tlsCallbacks;
     if cb = 0 then Some w
     else tls_loop imageBase (tlsCallbacks + 8) (emit (TlsCall cb imageBase DLL_PROCESS_ATTACH) w)
   }"
  by pat_completeness auto
termination
  by (relation "measure (\<lambda>(imageBase, tlsCallbacks, w). length (region w) - tlsCallbacks)")
     (auto simp: emit_def dest!: load64_bound)

declare tls_loop.simps [simp del]

definition RunTLSCallbacks :: "Module \<Rightarrow> world \<Rightarrow> world option" where
  "RunTLSCallbacks m w = do {
     tlsDirectory \<leftarrow> TLSDirectory (region w) m;
     case tlsDirectory of
       None \<Rightarrow> Some w
     | Some t \<Rightarrow> do {
         a \<leftarrow> tls_AddressOfCallBacks (region w) t;
         if a < mod_base m then None
         else tls_loop (mod_base m) (unat (a - mod_base m)) w
       }
   }"

subsection \<open>Load\<close>

text \<open>
  The result is \<open>None\<close> when the behaviour is undefined or the relocation loop has not
  ended within \<open>fuel\<close> blocks, and otherwise the returned \<open>std::optional<Module>\<close> with
  the state of the process.

  \<open>Module\<close> declares a destructor and neither a copy nor a move constructor. The local
  \<open>mod\<close> of line 168 is therefore destroyed on every path that leaves \<open>Load\<close> after its
  construction, and \<open>return mod;\<close> (the return type is \<open>std::optional<Module>\<close>, so
  nothing is elided) first copies it member by member into the result and then destroys
  it as well: the result holds the same base address and the same list of import modules.
\<close>

definition Load :: "nat \<Rightarrow> host \<Rightarrow> PE \<Rightarrow> (Module option \<times> world) option" where
  "Load fuel h pe =
     (if \<not> pe_ok pe then Some (None, \<lparr>region = [], trace = []\<rparr>)
      else do {
        imageSize \<leftarrow> PE_ImageSize pe;
        let memory = VirtualAlloc h (unat imageSize);
        let w = \<lparr>region = [], trace = [Alloc (unat imageSize) memory]\<rparr>;
        if memory = 0 then Some (None, w)
        else do {
          r \<leftarrow> CopyImage pe (unat imageSize);
          (m, r) \<leftarrow> Module_ctor memory (unat imageSize) r;
          let w = w\<lparr>region := r\<rparr>;
          if \<not> mod_ok m then Some (None, Module_dtor m w)
          else do {
            (ok, m, w) \<leftarrow> BuildIAT h m w;
            if \<not> ok then Some (None, Module_dtor m w)
            else do {
              nt \<leftarrow> mod_ntHeader m;
              actual \<leftarrow> ImageBase (region w) nt;
              pnt \<leftarrow> pe_ntHeader pe;
              preferred \<leftarrow> ImageBase (pe_data pe) pnt;
              let delta = actual - preferred;
              r \<leftarrow> (if delta \<noteq> 0 then RelocateBase fuel m delta (region w)
                    else Some (region w));
              let w = w\<lparr>region := r\<rparr>;
              (ok, w) \<leftarrow> FinalizeSection h m w;
              if \<not> ok then Some (None, Module_dtor m w)
              else do {
                w \<leftarrow> RunTLSCallbacks m w;
                Some (Some m, Module_dtor m w)
              }
            }
          }
        }
      })"

text \<open>The destruction of the returned \<open>std::optional<Module>\<close> by the caller.\<close>

definition destroy :: "Module option \<Rightarrow> world \<Rightarrow> world" where
  "destroy result w = (case result of None \<Rightarrow> w | Some m \<Rightarrow> Module_dtor m w)"

section \<open>Concrete images and hosts\<close>

text \<open>
  Small PE32+ files, built field by field, on which the definitions above are evaluated.
  Each has the DOS header, the NT headers at offset 64, the section table at offset 328
  and the raw data from offset 512; file offsets and RVAs coincide and the image is 768
  bytes long.
\<close>

definition zeros :: "nat \<Rightarrow> byte list" where "zeros n = replicate n 0"
definition le16 :: "16 word \<Rightarrow> byte list" where "le16 v = to_le 2 v"
definition le32 :: "32 word \<Rightarrow> byte list" where "le32 v = to_le 4 v"
definition le64 :: "64 word \<Rightarrow> byte list" where "le64 v = to_le 8 v"
definition pad_to :: "nat \<Rightarrow> byte list \<Rightarrow> byte list" where
  "pad_to n bs = bs @ zeros (n - length bs)"
definition dos_header :: "32 word \<Rightarrow> byte list" where
  "dos_header lfanew = [0x4D, 0x5A] @ zeros 58 @ le32 lfanew"
definition file_header :: "16 word \<Rightarrow> 16 word \<Rightarrow> 16 word \<Rightarrow> byte list" where
  "file_header machine n soh = le16 machine @ le16 n @ zeros 12 @ le16 soh @ le16 0x2022"
definition optional_header :: "64 word \<Rightarrow> 32 word \<Rightarrow> (32 word \<times> 32 word) list \<Rightarrow> byte list" where
  "optional_header imageBase sizeOfImage dirs =
     le16 0x20B @ zeros 22 @ le64 imageBase @ zeros 24 @ le32 sizeOfImage @ zeros 52 @
     concat (map (\<lambda>(va, sz). le32 va @ le32 sz) dirs)"
definition section_header :: "32 word \<Rightarrow> 32 word \<Rightarrow> 32 word \<Rightarrow> 32 word \<Rightarrow> 32 word \<Rightarrow> byte list" where
  "section_header vs va rs rp ch =
     zeros 8 @ le32 vs @ le32 va @ le32 rs @ le32 rp @ zeros 12 @ le32 ch"
definition directories :: "(32 word \<times> 32 word) \<Rightarrow> (32 word \<times> 32 word) \<Rightarrow> (32 word \<times> 32 word) \<Rightarrow> (32 word \<times> 32 word) list" where
  "directories imp rel tls =
     [(0, 0), imp, (0, 0), (0, 0), (0, 0), rel, (0, 0), (0, 0), (0, 0), tls,
      (0, 0), (0, 0), (0, 0), (0, 0), (0, 0), (0, 0)]"
definition image :: "64 word \<Rightarrow> 32 word \<Rightarrow> (32 word \<times> 32 word) list \<Rightarrow> byte list list \<Rightarrow> byte list \<Rightarrow> byte list" where
  "image imageBase sizeOfImage dirs shs raw =
     pad_to 512 (dos_header 64 @ le32 0x4550 @ file_header 0x8664 (of_nat (length shs)) 240 @
       optional_header imageBase sizeOfImage dirs @ concat shs) @ raw"

text \<open>
  \<open>import_image\<close> imports the function \<open>f\<close> by name from \<open>a.dll\<close>: one descriptor at RVA
  0x200 and its terminator, the name at 0x230, the lookup table at 0x240, the address table
  at 0x250 and the hint and name at 0x260.
\<close>

definition import_descriptor :: "32 word \<Rightarrow> 32 word \<Rightarrow> 32 word \<Rightarrow> byte list" where
  "import_descriptor oft name ft = le32 oft @ zeros 8 @ le32 name @ le32 ft"

definition a_dll :: "byte list" where "a_dll = [0x61, 0x2E, 0x64, 0x6C, 0x6C]"

definition import_image :: "byte list" where
  "import_image = image 0x140000000 0x300 (directories (0x200, 40) (0, 0) (0, 0))
     [section_header 0x100 0x200 0x100 0x200 0x60000020]
     (pad_to 0x100
       (pad_to 0x30 (import_descriptor 0x240 0x230 0x250) @
        pad_to 0x10 (a_dll @ [0]) @
        le64 0x260 @ le64 0 @ le64 0x260 @ le64 0 @
        le16 0 @ [0x66, 0]))"

text \<open>
  Two hosts: both allocate at 0x7FF000000000, load \<open>a.dll\<close> and accept every protection;
  the first resolves \<open>f\<close>, the second resolves nothing.
\<close>

definition good_host :: host where
  "good_host = \<lparr>VirtualAlloc = (\<lambda>n. 0x7FF000000000),
     LoadLibraryA = (\<lambda>n. if n = a_dll then 0x7FFA00000000 else 0),
     GetProcAddress = (\<lambda>h p. if p = ByName [0x66] then 0x7FFA00001000 else 0),
     VirtualProtect = (\<lambda>a n p. True)\<rparr>"



definition stubborn_host :: host where
  "stubborn_host = \<lparr>VirtualAlloc = (\<lambda>n. 0x7FF000000000),
     LoadLibraryA = (\<lambda>n. if n = a_dll then 0x7FFA00000000 else 0),
     GetProcAddress = (\<lambda>h p. 0),
     VirtualProtect = (\<lambda>a n p. True)\<rparr>"

text \<open>A host on which \<open>VirtualProtect\<close> fails for \<open>PAGE_READWRITE\<close>.\<close>

definition picky_host :: host where
  "picky_host = good_host\<lparr>VirtualProtect := (\<lambda>a n p. p \<noteq> PAGE_READWRITE)\<rparr>"

text \<open>The same import with \<open>OriginalFirstThunk = 0\<close>: only the address table names \<open>f\<close>.\<close>

definition no_oft_image :: "byte list" where
  "no_oft_image = image 0x140000000 0x300 (directories (0x200, 40) (0, 0) (0, 0))
     [section_header 0x100 0x200 0x100 0x200 0x60000020]
     (pad_to 0x100
       (pad_to 0x30 (import_descriptor 0 0x230 0x250) @
        pad_to 0x20 (a_dll @ [0]) @
        le64 0x260 @ le64 0 @
        le16 0 @ [0x66, 0]))"

text \<open>
  The import data directory has a size and the RVA 0x180, which lies in the padding
  after the section table and in no section.
\<close>

definition stray_import_image :: "byte list" where
  "stray_import_image = image 0x140000000 0x300 (directories (0x180, 40) (0, 0) (0, 0))
     [section_header 0x100 0x200 0x100 0x200 0x60000020]
     (zeros 0x100)"

text \<open>
  Three sections (code, data, relocations). The data section holds two pointers into the
  image at its preferred base, and the relocation table one block for RVA 0x240 with a
  \<open>DIR64\<close> entry for each of them and a \<open>HIGHLOW\<close> entry between.
\<close>

definition reloc_image :: "byte list" where
  "reloc_image = image 0x140000000 0x300 (directories (0, 0) (0x280, 16) (0, 0))
     [section_header 0x40 0x200 0x40 0x200 0x60000020,
      section_header 0x40 0x240 0x40 0x240 0xC0000040,
      section_header 0x80 0x280 0x80 0x280 0x42000040]
     (pad_to 0x40 [0xC3] @
      pad_to 0x40 (le64 0x140000200 @ le64 0x140000240) @
      pad_to 0x80 (le32 0x240 @ le32 16 @ le16 0xA000 @ le16 0x3004 @ le16 0xA008 @ le16 0))"









text \<open>The import data directory has a size and the RVA 0, which no section covers.\<close>

definition zero_va_image :: "byte list" where
  "zero_va_image = image 0x140000000 0x300 (directories (0, 40) (0, 0) (0, 0))
     [section_header 0x100 0x200 0x100 0x200 0x60000020]
     (zeros 0x100)"

section \<open>Properties\<close>

subsection \<open>Evaluation\<close>

lemma from_le_to_le: "(from_le (to_le n w) :: 'a::len word) = take_bit (8 * n) (w :: 'a word)"
proof (induction n arbitrary: w)
  case 0
  show ?case by simp
next
  case (Suc n)
  show ?case
    unfolding to_le.simps from_le.simps Suc.IH
  proof (rule bit_word_eqI)
    fix k assume k: "k < LENGTH('a)"
    show "bit (ucast (ucast w :: 8 word) OR push_bit 8 (take_bit (8 * n) (drop_bit 8 w)) :: 'a word) k
        = bit (take_bit (8 * Suc n) w) k"
    proof (cases "k < 8")
      case True
      with k show ?thesis by (auto simp: bit_simps)
    next
      case False
      then have "8 + (k - 8) = k" by simp
      with False k show ?thesis by (auto simp: bit_simps)
    qed
  qed
qed

lemma length_to_le: "length (to_le n w) = n"
  by (induction n arbitrary: w) auto

lemma from_le_le16: "from_le (le16 v) = v"
  by (simp add: le16_def from_le_to_le take_bit_word_eq_self)

lemma from_le_le32: "from_le (le32 v) = v"
  by (simp add: le32_def from_le_to_le take_bit_word_eq_self)

lemma from_le_le64: "from_le (le64 v) = v"
  by (simp add: le64_def from_le_to_le take_bit_word_eq_self)

lemma length_le: "length (le16 a) = 2" "length (le32 b) = 4" "length (le64 c) = 8"
  by (simp_all add: le16_def le32_def le64_def length_to_le)

lemma from_le_zeros: "from_le (replicate n 0) = 0"
  by (induction n) auto

lemma cstr_zeros: "0 < n \<Longrightarrow> cstr (replicate n 0 @ xs) = Some []"
  by (cases n) auto

lemma to_le_8_le64: "to_le 8 v = le64 v"
  by (simp add: le64_def)

lemma thunk_loop_unfold:
  "thunk_loop h module OFT IAT w =
     (case load64 (region w) OFT of
        None \<Rightarrow> None
      | Some t \<Rightarrow>
          if t = 0 then Some (True, w)
          else do {
            p \<leftarrow> (if IMAGE_SNAP_BY_ORDINAL t then Some (ByOrdinal (ucast (IMAGE_ORDINAL t)))
                 else map_option ByName (cstring (region w) (unat t + 2)));
            let function = GetProcAddress h module p;
            let w = emit (GetProc module p function) w;
            if function = 0 then Some (False, w)
            else do {
              r \<leftarrow> store64 (region w) IAT function;
              thunk_loop h module (OFT + 8) (IAT + 8) (w\<lparr>region := r\<rparr>)
            }
          })"
  by (subst thunk_loop.simps) (simp split: option.split)

lemma import_loop_unfold:
  "import_loop h importDirectory m w =
     (case imp_Characteristics (region w) importDirectory of
        None \<Rightarrow> None
      | Some c \<Rightarrow>
     if c = 0 then Some (True, m, w)
     else do {
       name \<leftarrow> imp_Name (region w) importDirectory;
       dll \<leftarrow> cstring (region w) (unat name);
       let module = LoadLibraryA h dll;
       let w = emit (LoadLib dll module) w;
       if module = 0 then Some (False, m, w)
       else do {
         oft \<leftarrow> imp_OriginalFirstThunk (region w) importDirectory;
         ft \<leftarrow> imp_FirstThunk (region w) importDirectory;
         let OFT = (if oft = 0 then unat ft else unat oft);
         (ok, w') \<leftarrow> thunk_loop h module OFT (unat ft) w;
         if \<not> ok then Some (False, m, w')
         else import_loop h (importDirectory + sizeof_IMAGE_IMPORT_DESCRIPTOR)
                (AddImportModule m module) w'
       }
     })"
  by (subst import_loop.simps) (simp split: option.split)


lemmas chunks = from_le_le16 from_le_le32 from_le_le64 length_le from_le_zeros cstr_zeros
  to_le_8_le64 zeros_def pad_to_def dos_header_def file_header_def optional_header_def
  section_header_def directories_def image_def import_descriptor_def a_dll_def

lemmas defs = PE_Parse_def PE_init_def layout load16_def load32_def load64_def store64_def peek_def poke_def
  Load_def PE_ImageSize_def CopyImage_def CopyHeaders_def WriteHeaderBlock_def header_bytes_def
  WriteSectionHeader_def Write_def CanWrite_def ProceedBuffer_def size_t_def Seek_def LoadSection_def
  Module_ctor_def Module_dtor_def BuildIAT_def Module_ImportDirectory_def FetchDataDirectory_def
  thunk_loop_unfold import_loop_unfold cstring_def emit_def AddImportModule_def
  RelocateBase_def RelocationDirectory_def FinalizeSection_def newProtect_def isBitSet_def
  RunTLSCallbacks_def TLSDirectory_def

lemma reloc_loop_unfold:
  "reloc_loop delta relocTable reloc r =
     (case load16 r reloc of
        None \<Rightarrow> None
      | Some e \<Rightarrow>
          if e = 0 then Some r
          else do {
            va \<leftarrow> blk_VirtualAddress r relocTable;
            let dest = unat (va + ucast (e AND 0xfff));
            if length r \<le> dest then None
            else do {
              r' \<leftarrow> (if drop_bit 12 e = IMAGE_REL_BASED_DIR64
                    then add64 r dest delta else Some r);
              reloc_loop delta relocTable (reloc + 2) r'
            }
          })"
  by (subst reloc_loop.simps) (simp split: option.split)

lemma tls_loop_unfold:
  "tls_loop imageBase tlsCallbacks w =
     (case load64 (region w) tlsCallbacks of
        None \<Rightarrow> None
      | Some cb \<Rightarrow>
          if cb = 0 then Some w
          else tls_loop imageBase (tlsCallbacks + 8)
                 (emit (TlsCall cb imageBase DLL_PROCESS_ATTACH) w))"
  by (subst tls_loop.simps) (simp split: option.split)

lemma reloc_blocks_numeral:
  "reloc_blocks (numeral k) delta t r = reloc_blocks (Suc (pred_numeral k)) delta t r"
  by (simp add: numeral_eq_Suc)

lemma upt_to_numeral:
  "[i..<numeral k] = (if i < numeral k then i # [Suc i..<numeral k] else [])"
  by (rule upt_rec)

lemmas run = defs chunks reloc_loop_unfold tls_loop_unfold reloc_blocks_numeral add64_def destroy_def
  PE_ImportDirectory_def Rva2Raw_def rvaInSection_def inBetween_def upt_to_numeral

subsection \<open>Helper lemmas\<close>

lemma size_t_id: "n < 2 ^ 64 \<Longrightarrow> size_t n = n"
  by (simp add: size_t_def)



lemma find_section_none:
  "list_all (\<lambda>s. rvaInSection m rva s = Some False) ss \<Longrightarrow> find_section m rva ss = Some None"
  by (induction ss) auto


lemma lfanew_negative:
  assumes "sint (l :: 32 word) < 0"
  shows "\<not> (scast l :: 64 word) < of_nat sizeof_IMAGE_DOS_HEADER"
proof -
  have ge: "- (2 ^ 31) \<le> sint l" using sint_ge [of l] by simp
  have "uint (scast l :: 64 word) = sint l mod 2 ^ 64"
    unfolding scast_eq uint_word_of_int by simp
  also have "\<dots> = (sint l + 2 ^ 64) mod 2 ^ 64"
    by (simp only: mod_add_self2)
  also have "\<dots> = sint l + 2 ^ 64"
    using assms ge by (intro mod_pos_pos_trivial) auto
  finally have u: "uint (scast l :: 64 word) = sint l + 2 ^ 64" .
  have "((scast l :: 64 word) < 64) = (uint (scast l :: 64 word) < uint (64 :: 64 word))"
    by (rule word_less_alt)
  also have "\<dots> = (sint l + 2 ^ 64 < 64)" by (simp add: u)
  finally show ?thesis
    using ge by (simp add: sizeof_IMAGE_DOS_HEADER_def)
qed











text \<open>
  What the phases of \<open>Load\<close> leave unchanged, and the phases a successful \<open>Load\<close>
  went through.
\<close>

lemma protect_events_append [simp]:
  "protect_events (xs @ ys) = protect_events xs @ protect_events ys"
  by (simp add: protect_events_def)

lemma protect_events_simps [simp]:
  "protect_events [] = []"
  "protect_events (Alloc n b # tr) = protect_events tr"
  "protect_events (LoadLib d hm # tr) = protect_events tr"
  "protect_events (GetProc hm p f # tr) = protect_events tr"
  "protect_events (Protect a n pr ok # tr) = Protect a n pr ok # protect_events tr"
  "protect_events (FreeLib hm # tr) = protect_events tr"
  "protect_events (Free b n t # tr) = protect_events tr"
  "protect_events (TlsCall cb b rs # tr) = protect_events tr"
  by (simp_all add: protect_events_def)

lemma protect_events_FreeLib [simp]: "protect_events (map FreeLib hs) = []"
  by (induction hs) auto

lemma thunk_loop_protect:
  "thunk_loop h module OFT IAT w = Some (ok, w') \<Longrightarrow>
   protect_events (trace w') = protect_events (trace w)"
proof (induction h module OFT IAT w rule: thunk_loop.induct)
  case (1 h module OFT IAT w)
  from "1.prems" obtain t where t: "load64 (region w) OFT = Some t"
    by (subst (asm) thunk_loop.simps) (auto simp: bind_eq_Some_conv)
  show ?case
  proof (cases "t = 0")
    case True
    with "1.prems" t show ?thesis
      by (subst (asm) thunk_loop.simps) simp
  next
    case False
    with "1.prems" t obtain p where
      p: "(if IMAGE_SNAP_BY_ORDINAL t then Some (ByOrdinal (ucast (IMAGE_ORDINAL t)))
            else map_option ByName (cstring (region w) (unat t + 2))) = Some p"
      by (subst (asm) thunk_loop.simps) (auto simp: bind_eq_Some_conv simp del: map_option_eq_Some)
    define f where "f = GetProcAddress h module p"
    define w1 where "w1 = emit (GetProc module p f) w"
    have tw1: "protect_events (trace w1) = protect_events (trace w)"
      by (simp add: w1_def emit_def)
    show ?thesis
    proof (cases "f = 0")
      case True
      with "1.prems" t False p tw1 show ?thesis
        by (subst (asm) thunk_loop.simps) (auto simp: f_def w1_def Let_def)
    next
      case f0: False
      with "1.prems" t False p obtain r where
        r: "store64 (region w1) IAT f = Some r" and
        rec: "thunk_loop h module (OFT + 8) (IAT + 8) (w1\<lparr>region := r\<rparr>) = Some (ok, w')"
        by (subst (asm) thunk_loop.simps) (auto simp: f_def w1_def Let_def bind_eq_Some_conv)
      from "1.IH" [OF t False p f_def w1_def f0 r rec] tw1
      show ?thesis by simp
    qed
  qed
qed

lemma import_loop_frame:
  "import_loop h d m w = Some (ok, m', w') \<Longrightarrow>
   protect_events (trace w') = protect_events (trace w) \<and>
   mod_base m' = mod_base m \<and> mod_imageSize m' = mod_imageSize m \<and>
   mod_ntHeader m' = mod_ntHeader m \<and> mod_sectionHeaders m' = mod_sectionHeaders m"
proof (induction h d m w rule: import_loop.induct)
  case (1 h d m w)
  from "1.prems" obtain c where c: "imp_Characteristics (region w) d = Some c"
    by (subst (asm) import_loop.simps) (auto simp: bind_eq_Some_conv)
  show ?case
  proof (cases "c = 0")
    case True
    with "1.prems" c show ?thesis
      by (subst (asm) import_loop.simps) simp
  next
    case False
    with "1.prems" c obtain name dll where
      name: "imp_Name (region w) d = Some name" and dll: "cstring (region w) (unat name) = Some dll"
      by (subst (asm) import_loop.simps) (auto simp: bind_eq_Some_conv)
    define module where "module = LoadLibraryA h dll"
    define w1 where "w1 = emit (LoadLib dll module) w"
    have tw1: "protect_events (trace w1) = protect_events (trace w)"
      by (simp add: w1_def emit_def)
    show ?thesis
    proof (cases "module = 0")
      case True
      with "1.prems" c False name dll tw1 show ?thesis
        by (subst (asm) import_loop.simps) (auto simp: module_def w1_def Let_def)
    next
      case m0: False
      with c False name dll obtain oft ft ok1 w2 where
        oft: "imp_OriginalFirstThunk (region w1) d = Some oft"
        and ft: "imp_FirstThunk (region w1) d = Some ft"
        and th: "thunk_loop h module (if oft = 0 then unat ft else unat oft) (unat ft) w1 = Some (ok1, w2)"
        and rest: "(if \<not> ok1 then Some (False, m, w2)
                    else import_loop h (d + sizeof_IMAGE_IMPORT_DESCRIPTOR)
                           (AddImportModule m module) w2) = Some (ok, m', w')"
        using "1.prems" [unfolded import_loop.simps [of h d m w]]
        unfolding module_def w1_def
        by (auto simp: Let_def bind_eq_Some_conv split: prod.splits)
      note tp = thunk_loop_protect [OF th]
      show ?thesis
      proof (cases ok1)
        case False
        with rest tp tw1 show ?thesis by auto
      next
        case True
        with rest have rec: "import_loop h (d + sizeof_IMAGE_IMPORT_DESCRIPTOR)
                           (AddImportModule m module) w2 = Some (ok, m', w')" by simp
        define OFT where "OFT = (if oft = 0 then unat ft else unat oft)"
        have x: "(ok1, w2) = (ok1, w2)" ..
        have nn: "\<not> \<not> ok1" using True by simp
        from "1.IH" [OF c False name dll module_def w1_def m0 oft ft OFT_def
            th [folded OFT_def] x nn rec] True tp tw1
        show ?thesis by (simp add: AddImportModule_def)
      qed
    qed
  qed
qed


lemma and_exp_eq_iff_bit:
  assumes n: "n < 32"
  shows "(c AND 2 ^ n = (2 ^ n :: 32 word)) = bit c n"
proof
  assume "c AND 2 ^ n = 2 ^ n"
  then have "bit (c AND 2 ^ n) n = bit (2 ^ n :: 32 word) n" by simp
  then show "bit c n" using n by (simp add: bit_and_iff bit_exp_iff)
next
  assume b: "bit c n"
  show "c AND 2 ^ n = 2 ^ n"
    by (rule bit_word_eqI) (use b in \<open>auto simp: bit_and_iff bit_exp_iff\<close>)
qed

lemma newProtect_table: "newProtect c = protection_table (bit c 31) (bit c 29)"
proof -
  have w: "isBitSet c IMAGE_SCN_MEM_WRITE = bit c 31"
    using and_exp_eq_iff_bit [of 31 c] by (simp add: isBitSet_def IMAGE_SCN_MEM_WRITE_def)
  have x: "isBitSet c IMAGE_SCN_MEM_EXECUTE = bit c 29"
    using and_exp_eq_iff_bit [of 29 c] by (simp add: isBitSet_def IMAGE_SCN_MEM_EXECUTE_def)
  show ?thesis by (simp add: newProtect_def protection_table_def w x)
qed

lemma protect_loop_calls:
  "protect_loop h b ss w = Some (ok, w') \<Longrightarrow>
   region w' = region w \<and>
   (\<exists>evs. trace w' = trace w @ evs \<and> protect_events evs = evs \<and>
      (ok \<longrightarrow> map Some evs = map (section_protection b (region w)) ss) \<and>
      (ok = (\<forall>a n p. Protect a n p False \<notin> set evs)))"
proof (induction ss arbitrary: w)
  case Nil
  then show ?case by auto
next
  case (Cons s ss)
  from Cons.prems obtain c va vs where
    c: "sec_Characteristics (region w) s = Some c"
    and va: "sec_VirtualAddress (region w) s = Some va"
    and vs: "sec_VirtualSize (region w) s = Some vs"
    by (auto simp: bind_eq_Some_conv)
  define res where "res = VirtualProtect h (b + ucast va) (unat vs) (newProtect c)"
  define e where "e = Protect (b + ucast va) (unat vs) (newProtect c) res"
  show ?case
  proof (cases res)
    case False
    with Cons.prems c va vs have "ok = False" "w' = emit e w"
      by (auto simp: res_def e_def Let_def)
    then show ?thesis using False
      by (auto simp: emit_def e_def intro!: exI [of _ "[e]"])
  next
    case True
    with Cons.prems c va vs have rec: "protect_loop h b ss (emit e w) = Some (ok, w')"
      by (auto simp: res_def e_def Let_def)
    from Cons.IH [OF rec] obtain evs where
      r: "region w' = region w" and t: "trace w' = trace w @ e # evs"
      and pe: "protect_events evs = evs"
      and okm: "ok \<longrightarrow> map Some evs = map (section_protection b (region w)) ss"
      and okf: "ok = (\<forall>a n p. Protect a n p False \<notin> set evs)"
      by (auto simp: emit_def)
    have sp: "section_protection b (region w) s = Some e"
      using c va vs True by (simp add: section_protection_def e_def newProtect_table)
    show ?thesis
      using r t pe okm okf sp True
      by (auto simp: e_def intro!: exI [of _ "e # evs"])
  qed
qed

lemma tls_loop_frame:
  "tls_loop b t w = Some w' \<Longrightarrow>
   region w' = region w \<and> protect_events (trace w') = protect_events (trace w)"
proof (induction b t w rule: tls_loop.induct)
  case (1 b t w)
  from "1.prems" obtain cb where cb: "load64 (region w) t = Some cb"
    by (subst (asm) tls_loop.simps) (auto simp: bind_eq_Some_conv)
  show ?case
  proof (cases "cb = 0")
    case True
    with "1.prems" cb show ?thesis by (subst (asm) tls_loop.simps) simp
  next
    case False
    with "1.prems" cb have
      rec: "tls_loop b (t + 8) (emit (TlsCall cb b DLL_PROCESS_ATTACH) w) = Some w'"
      by (subst (asm) tls_loop.simps) simp
    from "1.IH" [OF cb False rec] show ?thesis by (simp add: emit_def)
  qed
qed

lemma RunTLSCallbacks_frame:
  "RunTLSCallbacks m w = Some w' \<Longrightarrow>
   region w' = region w \<and> protect_events (trace w') = protect_events (trace w)"
  by (auto simp: RunTLSCallbacks_def bind_eq_Some_conv split: option.splits if_splits
        dest: tls_loop_frame)

lemma BuildIAT_frame:
  "BuildIAT h m w = Some (ok, m', w') \<Longrightarrow>
   protect_events (trace w') = protect_events (trace w) \<and>
   mod_base m' = mod_base m \<and> mod_imageSize m' = mod_imageSize m \<and>
   mod_ntHeader m' = mod_ntHeader m \<and> mod_sectionHeaders m' = mod_sectionHeaders m"
  by (auto simp: BuildIAT_def bind_eq_Some_conv split: option.splits dest: import_loop_frame)

lemma Module_dtor_frame:
  "region (Module_dtor m w) = region w"
  "protect_events (trace (Module_dtor m w)) = protect_events (trace w)"
  by (simp_all add: Module_dtor_def)

lemma Module_ctor_ok_shape:
  assumes "Module_ctor base sz r = Some (m, r')" "mod_ok m"
  shows "\<exists>nt n p. mod_ntHeader m = Some nt \<and> NumberOfSections r nt = Some n \<and>
           IMAGE_FIRST_SECTION r nt = Some p \<and> store64 r (nt + 48) base = Some r' \<and>
           mod_base m = base \<and> mod_imageSize m = sz \<and> mod_importModules m = [] \<and>
           mod_sectionHeaders m = map (\<lambda>i. p + sizeof_IMAGE_SECTION_HEADER * i) [0..<unat n]"
  using assms
  by (auto simp: Module_ctor_def Let_def bind_eq_Some_conv split: if_splits)

lemma Load_success:
  assumes "Load fuel h pe = Some (Some m, w)"
  shows "\<exists>sz r0 m0 r1 w2 nt actual pnt preferred r3 w4 w5.
    pe_ok pe \<and> PE_ImageSize pe = Some sz \<and> VirtualAlloc h (unat sz) \<noteq> 0 \<and>
    CopyImage pe (unat sz) = Some r0 \<and>
    Module_ctor (VirtualAlloc h (unat sz)) (unat sz) r0 = Some (m0, r1) \<and> mod_ok m0 \<and>
    BuildIAT h m0 \<lparr>region = r1, trace = [Alloc (unat sz) (VirtualAlloc h (unat sz))]\<rparr>
      = Some (True, m, w2) \<and>
    mod_ntHeader m = Some nt \<and> ImageBase (region w2) nt = Some actual \<and>
    pe_ntHeader pe = Some pnt \<and> ImageBase (pe_data pe) pnt = Some preferred \<and>
    (if actual - preferred \<noteq> 0 then RelocateBase fuel m (actual - preferred) (region w2)
     else Some (region w2)) = Some r3 \<and>
    FinalizeSection h m (w2\<lparr>region := r3\<rparr>) = Some (True, w4) \<and>
    RunTLSCallbacks m w4 = Some w5 \<and>
    w = Module_dtor m w5"
  using assms
  by (auto simp: Load_def Let_def bind_eq_Some_conv split: if_splits prod.splits)


lemma protect_loop_total:
  "\<forall>s\<in>set ss. s + 40 \<le> length (region w) \<Longrightarrow> \<exists>ok w'. protect_loop h b ss w = Some (ok, w')"
proof (induction ss arbitrary: w)
  case Nil
  show ?case by auto
next
  case (Cons s ss)
  have rd: "s + 40 \<le> length (region w)" using Cons.prems by simp
  obtain c va vs where
    c: "sec_Characteristics (region w) s = Some c"
    and va: "sec_VirtualAddress (region w) s = Some va"
    and vs: "sec_VirtualSize (region w) s = Some vs"
    using rd
    by (auto simp: sec_Characteristics_def sec_VirtualAddress_def sec_VirtualSize_def
          load32_def peek_def)
  define e where "e = Protect (b + ucast va) (unat vs) (newProtect c)
     (VirtualProtect h (b + ucast va) (unat vs) (newProtect c))"
  have "\<forall>s\<in>set ss. s + 40 \<le> length (region (emit e w))"
    using Cons.prems by (simp add: emit_def)
  from Cons.IH [OF this] obtain ok w' where "protect_loop h b ss (emit e w) = Some (ok, w')"
    by blast
  then show ?case
    using c va vs
    by (cases "VirtualProtect h (b + ucast va) (unat vs) (newProtect c)")
       (auto simp: Let_def e_def)
qed

lemma section_protection_True:
  "Some (Protect a n p ok) \<in> section_protection b r ` S \<Longrightarrow> ok"
  by (auto simp: section_protection_def bind_eq_Some_conv dest!: sym [of "Some _"])

lemma protect_events_mem:
  "Protect a n p ok \<in> set tr \<Longrightarrow> Protect a n p ok \<in> set (protect_events tr)"
  by (simp add: protect_events_def)

lemma Load_success_protections:
  assumes L: "Load fuel h pe = Some (Some m, w)"
  shows "(\<exists>sz r0 nt cnt first.
           PE_ImageSize pe = Some sz \<and> mod_base m = VirtualAlloc h (unat sz) \<and>
           CopyImage pe (unat sz) = Some r0 \<and> mod_ntHeader m = Some nt \<and>
           NumberOfSections r0 nt = Some cnt \<and> IMAGE_FIRST_SECTION r0 nt = Some first \<and>
           mod_sectionHeaders m =
             map (\<lambda>i. first + sizeof_IMAGE_SECTION_HEADER * i) [0..<unat cnt]) \<and>
         map Some (protect_events (trace w)) =
           map (section_protection (mod_base m) (region w)) (mod_sectionHeaders m)"
proof -
  from Load_success [OF L] obtain sz r0 m0 r1 w2 r3 w4 w5 where
    sz: "PE_ImageSize pe = Some sz"
    and cp: "CopyImage pe (unat sz) = Some r0"
    and ct: "Module_ctor (VirtualAlloc h (unat sz)) (unat sz) r0 = Some (m0, r1)" "mod_ok m0"
    and bi: "BuildIAT h m0 \<lparr>region = r1, trace = [Alloc (unat sz) (VirtualAlloc h (unat sz))]\<rparr>
      = Some (True, m, w2)"
    and fs: "FinalizeSection h m (w2\<lparr>region := r3\<rparr>) = Some (True, w4)"
    and tl: "RunTLSCallbacks m w4 = Some w5"
    and w: "w = Module_dtor m w5"
    by blast
  from Module_ctor_ok_shape [OF ct] obtain nt cnt first where
    sh: "mod_ntHeader m0 = Some nt" "NumberOfSections r0 nt = Some cnt"
      "IMAGE_FIRST_SECTION r0 nt = Some first" "mod_base m0 = VirtualAlloc h (unat sz)"
      "mod_sectionHeaders m0 = map (\<lambda>i. first + sizeof_IMAGE_SECTION_HEADER * i) [0..<unat cnt]"
    by blast
  note fr = BuildIAT_frame [OF bi]
  from fr have p2: "protect_events (trace w2) = []" by simp
  from protect_loop_calls [OF fs [unfolded FinalizeSection_def]] obtain evs where
    r4: "region w4 = r3" and t4: "trace w4 = trace w2 @ evs" and pe: "protect_events evs = evs"
    and mp: "map Some evs = map (section_protection (mod_base m) r3) (mod_sectionHeaders m)"
    by auto
  note f5 = RunTLSCallbacks_frame [OF tl]
  have rw: "region w = r3" using w f5 r4 by (simp add: Module_dtor_frame)
  have tw: "protect_events (trace w) = evs"
    using w f5 t4 p2 pe by (simp add: Module_dtor_frame)
  show ?thesis using sz cp sh fr rw tw mp by simp
qed

lemma FinalizeSection_total:
  assumes "\<forall>s\<in>set (mod_sectionHeaders m). s + 40 \<le> length (region w)"
  shows "\<exists>ok w'. FinalizeSection h m w = Some (ok, w') \<and> region w' = region w \<and>
           (\<exists>evs. trace w' = trace w @ evs \<and> ok = (\<forall>a n p. Protect a n p False \<notin> set evs))"
proof -
  from protect_loop_total [OF assms] obtain ok w' where
    p: "protect_loop h (mod_base m) (mod_sectionHeaders m) w = Some (ok, w')" by blast
  from protect_loop_calls [OF p] p show ?thesis
    unfolding FinalizeSection_def by blast
qed

subsection \<open>C1: the header block and the section table\<close>




subsection \<open>C2: what the parser checks\<close>




subsection \<open>C3: a module handle is recorded only after its thunks are resolved\<close>

text \<open>
  C3. \<open>import_image\<close> on a host that loads \<open>a.dll\<close> and resolves nothing:
  \<open>LoadLibraryA\<close> returns the handle 0x7FFA00000000, \<open>GetProcAddress\<close> returns null,
  \<open>BuildIAT\<close> returns false before \<open>AddImportModule\<close>, and the destructor of the
  \<open>Module\<close> frees the region and no library: the handle is never released.
\<close>

theorem leaked_module_on_unresolved_symbol:
  "do { pe \<leftarrow> PE_Parse import_image;
        (res, w) \<leftarrow> Load 1 stubborn_host pe;
        Some (res, trace w) }
   = Some (None,
       [Alloc 768 0x7FF000000000,
        LoadLib a_dll 0x7FFA00000000,
        GetProc 0x7FFA00000000 (ByName [0x66]) 0,
        Free 0x7FF000000000 768 MEM_FREE])"
  by (simp add: import_image_def stubborn_host_def run)

subsection \<open>C4: the destructor runs twice\<close>

text \<open>
  C4. \<open>import_image\<close> on a host that resolves \<open>f\<close>: the load succeeds, and its trace
  already ends with the \<open>FreeLibrary\<close> and the \<open>VirtualFree\<close> of the local \<open>mod\<close>
  that \<open>return mod;\<close> copied; the destruction of the returned copy repeats both. The
  handle is released twice and so is the region.
\<close>

theorem modules_released_twice:
  "do { pe \<leftarrow> PE_Parse import_image;
        (res, w) \<leftarrow> Load 1 good_host pe;
        Some (res \<noteq> None, trace w, trace (destroy res w)) }
   = Some (True,
       [Alloc 768 0x7FF000000000,
        LoadLib a_dll 0x7FFA00000000,
        GetProc 0x7FFA00000000 (ByName [0x66]) 0x7FFA00001000,
        Protect 0x7FF000000200 256 PAGE_EXECUTE_READ True,
        FreeLib 0x7FFA00000000,
        Free 0x7FF000000000 768 MEM_FREE],
       [Alloc 768 0x7FF000000000,
        LoadLib a_dll 0x7FFA00000000,
        GetProc 0x7FFA00000000 (ByName [0x66]) 0x7FFA00001000,
        Protect 0x7FF000000200 256 PAGE_EXECUTE_READ True,
        FreeLib 0x7FFA00000000,
        Free 0x7FF000000000 768 MEM_FREE,
        FreeLib 0x7FFA00000000,
        Free 0x7FF000000000 768 MEM_FREE])"
  by (simp add: import_image_def good_host_def run)

subsection \<open>C6: the descriptor walk\<close>



text \<open>
  \<open>Characteristics\<close> and \<open>OriginalFirstThunk\<close> are the same four bytes, so a descriptor
  with \<open>OriginalFirstThunk = 0\<close> is the terminator of the walk and the fallback to
  \<open>FirstThunk\<close> is never taken by \<open>import_loop\<close>: on \<open>no_oft_image\<close> no library is
  loaded and the slot at 0x250 keeps the RVA 0x260.
\<close>

lemma descriptor_without_OFT_ends_walk:
  "do { pe \<leftarrow> PE_Parse no_oft_image;
        oft \<leftarrow> imp_OriginalFirstThunk (pe_data pe) 0x200;
        name \<leftarrow> imp_Name (pe_data pe) 0x200;
        ft \<leftarrow> imp_FirstThunk (pe_data pe) 0x200;
        (res, w) \<leftarrow> Load 1 good_host pe;
        slot \<leftarrow> load64 (region w) 0x250;
        Some (oft, name, ft, res \<noteq> None, trace w, slot) }
   = Some (0, 0x230, 0x250, True,
       [Alloc 768 0x7FF000000000,
        Protect 0x7FF000000200 256 PAGE_EXECUTE_READ True,
        Free 0x7FF000000000 768 MEM_FREE],
       0x260)"
  by (simp add: no_oft_image_def good_host_def run)

subsection \<open>C7: the protection of the sections\<close>

text \<open>
  C7. \<open>newProtect\<close> is the truth table over the bits \<open>MEM_WRITE\<close> (bit 31) and
  \<open>MEM_EXECUTE\<close> (bit 29) of the characteristics. After a successful load, whose module
  has the base \<open>VirtualAlloc\<close> returned and one section header for each of the
  \<open>NumberOfSections\<close> sections of the copied image, the \<open>VirtualProtect\<close> calls of the
  trace are exactly, in the order of the sections, one successful call per section with
  the address \<open>base + VirtualAddress\<close>, the size \<open>VirtualSize\<close> and the protection of the
  table, the three fields being read from the mapped section header. A load whose trace
  holds a failed \<open>VirtualProtect\<close> call has returned empty. \<open>FinalizeSection\<close> itself
  returns whenever the section headers lie within the region, leaves the region as it
  is, and returns \<open>true\<close> exactly when none of its calls failed.
\<close>

theorem sections_protected_by_table:
  "newProtect c = protection_table (bit c 31) (bit c 29) \<and>
   (Load fuel h pe = Some (Some m, w) \<longrightarrow>
      (\<exists>sz r0 nt cnt first.
         PE_ImageSize pe = Some sz \<and> mod_base m = VirtualAlloc h (unat sz) \<and>
         CopyImage pe (unat sz) = Some r0 \<and> mod_ntHeader m = Some nt \<and>
         NumberOfSections r0 nt = Some cnt \<and> IMAGE_FIRST_SECTION r0 nt = Some first \<and>
         mod_sectionHeaders m =
           map (\<lambda>i. first + sizeof_IMAGE_SECTION_HEADER * i) [0..<unat cnt]) \<and>
      map Some (protect_events (trace w)) =
        map (section_protection (mod_base m) (region w)) (mod_sectionHeaders m)) \<and>
   (Load fuel h pe = Some (res, w') \<and> Protect a n p False \<in> set (trace w') \<longrightarrow> res = None) \<and>
   ((\<forall>s\<in>set (mod_sectionHeaders m0). s + 40 \<le> length (region w0)) \<longrightarrow>
      (\<exists>ok w1. FinalizeSection h m0 w0 = Some (ok, w1) \<and> region w1 = region w0 \<and>
         (\<exists>evs. trace w1 = trace w0 @ evs \<and>
                ok = (\<forall>a n p. Protect a n p False \<notin> set evs))))"
proof (intro conjI impI)
  show "newProtect c = protection_table (bit c 31) (bit c 29)"
    by (rule newProtect_table)
next
  assume "Load fuel h pe = Some (Some m, w)"
  from Load_success_protections [OF this]
  show "\<exists>sz r0 nt cnt first.
         PE_ImageSize pe = Some sz \<and> mod_base m = VirtualAlloc h (unat sz) \<and>
         CopyImage pe (unat sz) = Some r0 \<and> mod_ntHeader m = Some nt \<and>
         NumberOfSections r0 nt = Some cnt \<and> IMAGE_FIRST_SECTION r0 nt = Some first \<and>
         mod_sectionHeaders m =
           map (\<lambda>i. first + sizeof_IMAGE_SECTION_HEADER * i) [0..<unat cnt]"
    by (rule conjunct1)
next
  assume "Load fuel h pe = Some (Some m, w)"
  from Load_success_protections [OF this]
  show "map Some (protect_events (trace w)) =
        map (section_protection (mod_base m) (region w)) (mod_sectionHeaders m)"
    by (rule conjunct2)
next
  assume a: "Load fuel h pe = Some (res, w') \<and> Protect a n p False \<in> set (trace w')"
  show "res = None"
  proof (cases res)
    case None
    then show ?thesis .
  next
    case (Some m')
    with a have L: "Load fuel h pe = Some (Some m', w')" by simp
    from a have "Some (Protect a n p False) \<in> set (map Some (protect_events (trace w')))"
      by (simp add: protect_events_mem)
    with Load_success_protections [OF L]
    have "Some (Protect a n p False) \<in>
            section_protection (mod_base m') (region w') ` set (mod_sectionHeaders m')"
      by simp
    from section_protection_True [OF this] show ?thesis by simp
  qed
next
  assume "\<forall>s\<in>set (mod_sectionHeaders m0). s + 40 \<le> length (region w0)"
  from FinalizeSection_total [OF this]
  show "\<exists>ok w1. FinalizeSection h m0 w0 = Some (ok, w1) \<and> region w1 = region w0 \<and>
         (\<exists>evs. trace w1 = trace w0 @ evs \<and>
                ok = (\<forall>a n p. Protect a n p False \<notin> set evs))" .
qed

text \<open>
  The three sections of \<open>reloc_image\<close> (execute only, write only, neither) on a host
  where every call succeeds and on one where \<open>PAGE_READWRITE\<close> is refused, and
  \<open>FinalizeSection\<close> on two section headers (write only; write and execute).
\<close>

theorem sections_protected_by_table_witness:
  "(\<exists>pe m w. PE_Parse reloc_image = Some pe \<and> Load 2 good_host pe = Some (Some m, w) \<and>
      trace w =
        [Alloc 768 0x7FF000000000,
         Protect 0x7FF000000200 64 PAGE_EXECUTE_READ True,
         Protect 0x7FF000000240 64 PAGE_READWRITE True,
         Protect 0x7FF000000280 128 PAGE_READONLY True,
         Free 0x7FF000000000 768 MEM_FREE] \<and>
      map Some (protect_events (trace w)) =
        map (section_protection (mod_base m) (region w)) (mod_sectionHeaders m)) \<and>
   (\<exists>pe w. PE_Parse reloc_image = Some pe \<and> Load 2 picky_host pe = Some (None, w) \<and>
      trace w =
        [Alloc 768 0x7FF000000000,
         Protect 0x7FF000000200 64 PAGE_EXECUTE_READ True,
         Protect 0x7FF000000240 64 PAGE_READWRITE False,
         Free 0x7FF000000000 768 MEM_FREE]) \<and>
   (\<exists>ok w1.
      FinalizeSection picky_host
        \<lparr>mod_base = 0x7FF000000000, mod_imageSize = 768, mod_dosHeader = Some 0,
          mod_ntHeader = Some 64, mod_sectionHeaders = [0, 40], mod_importModules = [],
          mod_error = Success, mod_ok = True\<rparr>
        \<lparr>region = section_header 0x40 0x200 0x40 0x200 0xC0000040 @
                  section_header 0x40 0x240 0x40 0x240 0xE0000020, trace = []\<rparr>
        = Some (ok, w1) \<and>
      region w1 = section_header 0x40 0x200 0x40 0x200 0xC0000040 @
                  section_header 0x40 0x240 0x40 0x240 0xE0000020 \<and>
      (\<exists>evs. trace w1 = [] @ evs \<and> ok = (\<forall>a n p. Protect a n p False \<notin> set evs)))"
proof -
  have "do { pe \<leftarrow> PE_Parse reloc_image;
             (res, w) \<leftarrow> Load 2 good_host pe;
             Some (res \<noteq> None, trace w) }
        = Some (True,
            [Alloc 768 0x7FF000000000,
             Protect 0x7FF000000200 64 PAGE_EXECUTE_READ True,
             Protect 0x7FF000000240 64 PAGE_READWRITE True,
             Protect 0x7FF000000280 128 PAGE_READONLY True,
             Free 0x7FF000000000 768 MEM_FREE])"
    by (simp add: reloc_image_def good_host_def run)
  then obtain pe m w where
    g: "PE_Parse reloc_image = Some pe" "Load 2 good_host pe = Some (Some m, w)"
      "trace w =
        [Alloc 768 0x7FF000000000,
         Protect 0x7FF000000200 64 PAGE_EXECUTE_READ True,
         Protect 0x7FF000000240 64 PAGE_READWRITE True,
         Protect 0x7FF000000280 128 PAGE_READONLY True,
         Free 0x7FF000000000 768 MEM_FREE]"
    by (auto simp: bind_eq_Some_conv)
  have "do { pe \<leftarrow> PE_Parse reloc_image;
             (res, w) \<leftarrow> Load 2 picky_host pe;
             Some (trace w) }
        = Some
            [Alloc 768 0x7FF000000000,
             Protect 0x7FF000000200 64 PAGE_EXECUTE_READ True,
             Protect 0x7FF000000240 64 PAGE_READWRITE False,
             Free 0x7FF000000000 768 MEM_FREE]"
    by (simp add: reloc_image_def picky_host_def good_host_def run)
  then obtain pe' res w' where
    b: "PE_Parse reloc_image = Some pe'" "Load 2 picky_host pe' = Some (res, w')"
      "trace w' =
        [Alloc 768 0x7FF000000000,
         Protect 0x7FF000000200 64 PAGE_EXECUTE_READ True,
         Protect 0x7FF000000240 64 PAGE_READWRITE False,
         Free 0x7FF000000000 768 MEM_FREE]"
    by (auto simp: bind_eq_Some_conv)
  have f: "Load 2 picky_host pe' = Some (res, w') \<and>
           Protect 0x7FF000000240 64 PAGE_READWRITE False \<in> set (trace w')"
    using b by simp
  note t = sections_protected_by_table [of _ 2 good_host pe m w]
  note u = sections_protected_by_table [of _ 2 picky_host pe' _ _ res w'
      "0x7FF000000240" 64 PAGE_READWRITE]
  from t [THEN conjunct2, THEN conjunct1, THEN mp, OF g(2), THEN conjunct2]
  have s: "map Some (protect_events (trace w)) =
        map (section_protection (mod_base m) (region w)) (mod_sectionHeaders m)" .
  from u [THEN conjunct2, THEN conjunct2, THEN conjunct1, THEN mp, OF f]
  have n: "res = None" .
  let ?M = "\<lparr>mod_base = 0x7FF000000000, mod_imageSize = 768, mod_dosHeader = Some 0,
          mod_ntHeader = Some 64, mod_sectionHeaders = [0, 40], mod_importModules = [],
          mod_error = Success, mod_ok = True\<rparr>"
  let ?W = "\<lparr>region = section_header 0x40 0x200 0x40 0x200 0xC0000040 @
                  section_header 0x40 0x240 0x40 0x240 0xE0000020, trace = []\<rparr>"
  have v: "\<forall>s\<in>set (mod_sectionHeaders ?M). s + 40 \<le> length (region ?W)"
    by (simp add: run)
  note x = sections_protected_by_table [of _ _ picky_host _ _ _ _ _ _ _ _ ?M ?W]
  from x [THEN conjunct2, THEN conjunct2, THEN conjunct2, THEN mp, OF v]
  have y: "\<exists>ok w1. FinalizeSection picky_host ?M ?W = Some (ok, w1) \<and> region w1 = region ?W \<and>
         (\<exists>evs. trace w1 = trace ?W @ evs \<and>
                ok = (\<forall>a n p. Protect a n p False \<notin> set evs))" .
  have z: "(\<exists>pe m w. PE_Parse reloc_image = Some pe \<and> Load 2 good_host pe = Some (Some m, w) \<and>
      trace w =
        [Alloc 768 0x7FF000000000,
         Protect 0x7FF000000200 64 PAGE_EXECUTE_READ True,
         Protect 0x7FF000000240 64 PAGE_READWRITE True,
         Protect 0x7FF000000280 128 PAGE_READONLY True,
         Free 0x7FF000000000 768 MEM_FREE] \<and>
      map Some (protect_events (trace w)) =
        map (section_protection (mod_base m) (region w)) (mod_sectionHeaders m))"
    using g s by blast
  have z': "(\<exists>pe w. PE_Parse reloc_image = Some pe \<and> Load 2 picky_host pe = Some (None, w) \<and>
      trace w =
        [Alloc 768 0x7FF000000000,
         Protect 0x7FF000000200 64 PAGE_EXECUTE_READ True,
         Protect 0x7FF000000240 64 PAGE_READWRITE False,
         Free 0x7FF000000000 768 MEM_FREE])"
    using b n by blast
  from y have y': "\<exists>ok w1.
      FinalizeSection picky_host ?M ?W = Some (ok, w1) \<and>
      region w1 = section_header 0x40 0x200 0x40 0x200 0xC0000040 @
                  section_header 0x40 0x240 0x40 0x240 0xE0000020 \<and>
      (\<exists>evs. trace w1 = [] @ evs \<and> ok = (\<forall>a n p. Protect a n p False \<notin> set evs))"
    by simp
  from z z' y' show ?thesis by (intro conjI)
qed

subsection \<open>C8: the errors of the parser\<close>




subsection \<open>C9: the writer\<close>

text \<open>
  C9. For a writer over a buffer of at least \<open>size\<close> bytes and a byte sequence \<open>b\<close> whose
  end \<open>pos + length b\<close> is a \<open>size_t\<close> value: when \<open>pos + length b \<le> size\<close> the write
  copies \<open>b\<close> to \<open>[pos, pos + length b)\<close>, leaves every other byte as it was and advances
  \<open>pos\<close> by \<open>length b\<close>; otherwise the writer is returned unchanged. In both cases the
  call returns the writer and nothing else: no error is surfaced.
\<close>

theorem Write_copies_or_drops:
  assumes "bw_size bw \<le> length (bw_buffer bw)" and "bw_size bw < 2 ^ 64"
    and "bw_pos bw + length b < 2 ^ 64"
  shows "Write bw b =
     Some (if bw_pos bw + length b \<le> bw_size bw
           then bw\<lparr>bw_buffer := take (bw_pos bw) (bw_buffer bw) @ b @ drop (bw_pos bw + length b) (bw_buffer bw),
                  bw_pos := bw_pos bw + length b\<rparr>
           else bw)"
  using assms by (simp add: Write_def CanWrite_def ProceedBuffer_def poke_def size_t_id)

theorem Write_copies_or_drops_witness:
  "Write \<lparr>bw_buffer = [1, 2, 3, 4, 5], bw_size = 5, bw_pos = 1\<rparr> [9, 9]
     = Some \<lparr>bw_buffer = [1, 9, 9, 4, 5], bw_size = 5, bw_pos = 3\<rparr>
   \<and> Write \<lparr>bw_buffer = [1, 2, 3, 4, 5], bw_size = 5, bw_pos = 4\<rparr> [9, 9]
     = Some \<lparr>bw_buffer = [1, 2, 3, 4, 5], bw_size = 5, bw_pos = 4\<rparr>"
  using Write_copies_or_drops [of "\<lparr>bw_buffer = [1, 2, 3, 4, 5], bw_size = 5, bw_pos = 1\<rparr>" "[9, 9]"]
    Write_copies_or_drops [of "\<lparr>bw_buffer = [1, 2, 3, 4, 5], bw_size = 5, bw_pos = 4\<rparr>" "[9, 9]"]
  by simp

subsection \<open>C10: an import directory outside every section\<close>

text \<open>
  C10, counterexample. For \<open>stray_import_image\<close> \<open>PE::ImportDirectory\<close> returns the
  pointer to file offset 0, and the four bytes there read as \<open>Characteristics\<close> are
  0x5A4D, not a terminator: a walk over them would call \<open>LoadLibraryA\<close>. The load
  succeeds with no such call. \<open>BuildIAT\<close> never asks the parser: it walks the mapped
  image from \<open>base + VirtualAddress\<close> (here 0x180, where the region holds zeros).
\<close>

theorem loader_ignores_PE_ImportDirectory:
  "do { pe \<leftarrow> PE_Parse stray_import_image;
        d \<leftarrow> PE_ImportDirectory pe;
        c \<leftarrow> imp_Characteristics (pe_data pe) 0;
        (res, w) \<leftarrow> Load 1 good_host pe;
        Some (d, c, res \<noteq> None, trace w) }
   = Some (Some 0, 0x5A4D, True,
       [Alloc 768 0x7FF000000000,
        Protect 0x7FF000000200 256 PAGE_EXECUTE_READ True,
        Free 0x7FF000000000 768 MEM_FREE])"
  by (simp add: stray_import_image_def good_host_def run)

text \<open>
  C10, amended. When the import data directory has a non-zero size and no section
  covers its \<open>VirtualAddress\<close>, \<open>Rva2Raw\<close> returns 0 and \<open>PE::ImportDirectory\<close> returns
  the pointer to file offset 0, not null. The loader does not use that pointer: when the
  import directory of the mapped headers has a non-zero size, \<open>BuildIAT\<close> walks the
  descriptors of the mapped image from \<open>base + VirtualAddress\<close> of that directory,
  which is the mapped DOS header exactly when this \<open>VirtualAddress\<close> is 0 (as for
  \<open>zero_va_image\<close>, where the walk calls \<open>LoadLibraryA\<close> for the name \<open>MZ\<close>).
\<close>

theorem PE_ImportDirectory_uncovered:
  assumes "pe_ntHeader pe = Some nt"
    and "dir_VirtualAddress (pe_data pe) nt IMAGE_DIRECTORY_ENTRY_IMPORT = Some va"
    and "dir_Size (pe_data pe) nt IMAGE_DIRECTORY_ENTRY_IMPORT = Some sz"
    and "sz \<noteq> 0"
    and "list_all (\<lambda>s. rvaInSection (pe_data pe) va s = Some False) (pe_sectionHeaders pe)"
  shows "Rva2Raw pe va = Some 0 \<and> PE_ImportDirectory pe = Some (Some 0) \<and>
    (\<forall>h m w nt' va' sz'.
       mod_ntHeader m = Some nt' \<and>
       dir_VirtualAddress (region w) nt' IMAGE_DIRECTORY_ENTRY_IMPORT = Some va' \<and>
       dir_Size (region w) nt' IMAGE_DIRECTORY_ENTRY_IMPORT = Some sz' \<and> sz' \<noteq> 0 \<longrightarrow>
       Module_ImportDirectory (region w) m = Some (Some (unat va')) \<and>
       BuildIAT h m w = import_loop h (unat va') m w \<and>
       (unat va' = 0) = (va' = 0))"
proof -
  have r: "Rva2Raw pe va = Some 0"
    using find_section_none [OF assms(5)] by (simp add: Rva2Raw_def)
  have i: "PE_ImportDirectory pe = Some (Some 0)"
    using assms(1-4) r by (simp add: PE_ImportDirectory_def)
  have b: "Module_ImportDirectory (region w) m = Some (Some (unat va')) \<and>
       BuildIAT h m w = import_loop h (unat va') m w \<and> (unat va' = 0) = (va' = 0)"
    if "mod_ntHeader m = Some nt'"
      "dir_VirtualAddress (region w) nt' IMAGE_DIRECTORY_ENTRY_IMPORT = Some va'"
      "dir_Size (region w) nt' IMAGE_DIRECTORY_ENTRY_IMPORT = Some sz'" "sz' \<noteq> 0"
    for h m w nt' va' sz'
    using that
    by (simp add: BuildIAT_def Module_ImportDirectory_def FetchDataDirectory_def unat_eq_0)
  have b': "\<forall>h m w nt' va' sz'.
       mod_ntHeader m = Some nt' \<and>
       dir_VirtualAddress (region w) nt' IMAGE_DIRECTORY_ENTRY_IMPORT = Some va' \<and>
       dir_Size (region w) nt' IMAGE_DIRECTORY_ENTRY_IMPORT = Some sz' \<and> sz' \<noteq> 0 \<longrightarrow>
       Module_ImportDirectory (region w) m = Some (Some (unat va')) \<and>
       BuildIAT h m w = import_loop h (unat va') m w \<and>
       (unat va' = 0) = (va' = 0)"
    by (intro allI impI, elim conjE, rule b)
  from r i b' show ?thesis by (intro conjI)
qed

theorem PE_ImportDirectory_uncovered_witness:
  "PE_ImportDirectory \<lparr>pe_dosHeader = Some 0, pe_ntHeader = Some 64, pe_sectionHeaders = [328],
      pe_data = stray_import_image, pe_error = Success, pe_ok = True\<rparr> = Some (Some 0)
   \<and> PE_ImportDirectory \<lparr>pe_dosHeader = Some 0, pe_ntHeader = Some 64, pe_sectionHeaders = [328],
      pe_data = zero_va_image, pe_error = Success, pe_ok = True\<rparr> = Some (Some 0)
   \<and> do { pe \<leftarrow> PE_Parse zero_va_image;
          (res, w) \<leftarrow> Load 1 good_host pe;
          Some (res, trace w) }
      = Some (None,
          [Alloc 768 0x7FF000000000, LoadLib [0x4D, 0x5A] 0, Free 0x7FF000000000 768 MEM_FREE])"
proof -
  let ?pe = "\<lparr>pe_dosHeader = Some 0, pe_ntHeader = Some 64, pe_sectionHeaders = [328],
      pe_data = stray_import_image, pe_error = Success, pe_ok = True\<rparr>"
  let ?pz = "\<lparr>pe_dosHeader = Some 0, pe_ntHeader = Some 64, pe_sectionHeaders = [328],
      pe_data = zero_va_image, pe_error = Success, pe_ok = True\<rparr>"
  have a: "pe_ntHeader ?pe = Some 64" by simp
  have b: "dir_VirtualAddress (pe_data ?pe) 64 IMAGE_DIRECTORY_ENTRY_IMPORT = Some 0x180"
    by (simp add: stray_import_image_def run)
  have c: "dir_Size (pe_data ?pe) 64 IMAGE_DIRECTORY_ENTRY_IMPORT = Some 40"
    by (simp add: stray_import_image_def run)
  have d: "(40 :: 32 word) \<noteq> 0" by simp
  have e: "list_all (\<lambda>s. rvaInSection (pe_data ?pe) 0x180 s = Some False) (pe_sectionHeaders ?pe)"
    by (simp add: stray_import_image_def run)
  have a': "pe_ntHeader ?pz = Some 64" by simp
  have b': "dir_VirtualAddress (pe_data ?pz) 64 IMAGE_DIRECTORY_ENTRY_IMPORT = Some 0"
    by (simp add: zero_va_image_def run)
  have c': "dir_Size (pe_data ?pz) 64 IMAGE_DIRECTORY_ENTRY_IMPORT = Some 40"
    by (simp add: zero_va_image_def run)
  have e': "list_all (\<lambda>s. rvaInSection (pe_data ?pz) 0 s = Some False) (pe_sectionHeaders ?pz)"
    by (simp add: zero_va_image_def run)
  have z: "do { pe \<leftarrow> PE_Parse zero_va_image;
          (res, w) \<leftarrow> Load 1 good_host pe;
          Some (res, trace w) }
      = Some (None,
          [Alloc 768 0x7FF000000000, LoadLib [0x4D, 0x5A] 0, Free 0x7FF000000000 768 MEM_FREE])"
    by (simp add: zero_va_image_def good_host_def run)
  from PE_ImportDirectory_uncovered [OF a b c d e, THEN conjunct2, THEN conjunct1]
    PE_ImportDirectory_uncovered [OF a' b' c' d e', THEN conjunct2, THEN conjunct1] z
  show ?thesis by (intro conjI)
qed

end
